theory Spec2Isabelle
  imports Complex_Main "HOL-Library.AList" "HOL-Library.Sublist"
begin

section \<open>JavaScript values used by \<^verbatim>\<open>stats.ts\<close>\<close>

text \<open>
  The module \<^verbatim>\<open>packages/plugin-status/server/stats.ts\<close> keeps its counters in plain
  JavaScript objects and turns them into SQL text. A JavaScript object is modelled as an
  association list in the order in which \<^verbatim>\<open>for ... in\<close>, \<^verbatim>\<open>Object.keys\<close>,
  \<^verbatim>\<open>Object.values\<close> and \<^verbatim>\<open>Object.entries\<close> enumerate it: the keys that are array
  indices (canonical decimal numerals up to \<open>2^32 - 2\<close>) in ascending numeric order, then
  every other key in the order of its creation. Counters are JavaScript numbers that start at
  \<open>0\<close> and only ever grow by \<open>1\<close>; they are modelled as integers (exact in a double below
  \<open>2^53\<close>).
\<close>

type_synonym 'v obj = "(string \<times> 'v) list"

definition digit_val :: "char \<Rightarrow> int" where
  "digit_val c = of_char c - 48"

definition is_digit :: "char \<Rightarrow> bool" where
  "is_digit c = (48 \<le> (of_char c :: int) \<and> (of_char c :: int) \<le> 57)"

definition num_of :: "string \<Rightarrow> int" where
  "num_of s = foldl (\<lambda>n c. 10 * n + digit_val c) 0 s"

definition is_array_index :: "string \<Rightarrow> bool" where
  "is_array_index s =
     (s \<noteq> [] \<and> list_all is_digit s \<and> (s = ''0'' \<or> hd s \<noteq> CHR ''0'') \<and> num_of s \<le> 4294967294)"

fun obj_insert :: "string \<Rightarrow> 'v \<Rightarrow> 'v obj \<Rightarrow> 'v obj" where
  "obj_insert k v [] = [(k, v)]"
| "obj_insert k v ((k', v') # kvs) =
     (if is_array_index k \<and> (\<not> is_array_index k' \<or> num_of k < num_of k')
      then (k, v) # (k', v') # kvs
      else (k', v') # obj_insert k v kvs)"

definition obj_set :: "string \<Rightarrow> 'v \<Rightarrow> 'v obj \<Rightarrow> 'v obj" where
  \<comment> \<open>\<^verbatim>\<open>o[k] = v\<close>: an existing property keeps its place, a new one takes its place in the
      enumeration order.\<close>
  "obj_set k v kvs = (if k \<in> fst ` set kvs then AList.update k v kvs else obj_insert k v kvs)"

definition obj_get :: "'v obj \<Rightarrow> string \<Rightarrow> 'v option" where
  \<comment> \<open>The property \<^verbatim>\<open>k\<close> that \<^verbatim>\<open>o\<close> owns; \<open>None\<close> when it owns none.\<close>
  "obj_get kvs k = map_of kvs k"

definition or0 :: "int option \<Rightarrow> int" where
  \<comment> \<open>\<^verbatim>\<open>x || 0\<close> on a number or \<^verbatim>\<open>undefined\<close>.\<close>
  "or0 x = (case x of None \<Rightarrow> 0 | Some n \<Rightarrow> n)"

text \<open>
  The objects of the module are plain ones (\<^verbatim>\<open>{}\<close>, the result of
  \<^verbatim>\<open>Object.fromEntries\<close>, a record read from a table): their prototype is
  \<^verbatim>\<open>Object.prototype\<close>, and reading \<^verbatim>\<open>o[k]\<close> under a name the object does not own
  finds what \<^verbatim>\<open>Object.prototype\<close> holds under that name. These are its twelve
  properties: eleven functions, and the accessor \<^verbatim>\<open>__proto__\<close>, which reads as
  \<^verbatim>\<open>Object.prototype\<close> itself and, written with anything but an object or
  \<^verbatim>\<open>null\<close>, ignores the assignment. All twelve values are truthy, and none is a
  number. \<open>obj_get\<close> above looks at the object's own properties only; \<open>lookup\<close> is
  the read \<^verbatim>\<open>o[k]\<close> in full.
\<close>

definition inherited :: "string \<Rightarrow> bool" where
  \<comment> \<open>The names of the properties of \<^verbatim>\<open>Object.prototype\<close>.\<close>
  "inherited k =
     (k \<in> set [''constructor'', ''__defineGetter__'', ''__defineSetter__'', ''hasOwnProperty'',
                ''__lookupGetter__'', ''__lookupSetter__'', ''isPrototypeOf'', ''propertyIsEnumerable'',
                ''toString'', ''valueOf'', ''__proto__'', ''toLocaleString''])"

datatype 'v property =
    Own 'v
  | Inherited
  | Absent

definition lookup :: "'v obj \<Rightarrow> string \<Rightarrow> 'v property" where
  \<comment> \<open>\<^verbatim>\<open>o[k]\<close> on a plain object: the object's own property, else the property of
      \<^verbatim>\<open>Object.prototype\<close> of that name, else \<^verbatim>\<open>undefined\<close> (\<open>Absent\<close>).\<close>
  "lookup kvs k = (case map_of kvs k of Some v \<Rightarrow> Own v | None \<Rightarrow> if inherited k then Inherited else Absent)"

definition count_up :: "string \<Rightarrow> int obj \<Rightarrow> int obj option" where
  \<comment> \<open>\<^verbatim>\<open>o[k] = (o[k] || 0) + 1\<close> on a plain object of counters. Under a name that
      the object does not own and \<^verbatim>\<open>Object.prototype\<close> has, \<^verbatim>\<open>o[k] || 0\<close> is the
      inherited value and its sum with \<^verbatim>\<open>1\<close> is a text, not a number: the assignment
      of it to \<^verbatim>\<open>__proto__\<close> is ignored and leaves the object as it was; under any
      other such name the object then owns a text, which no counter of this model can
      hold: \<open>None\<close>.\<close>
  "count_up k kvs =
     (case lookup kvs k of
        Own n \<Rightarrow> Some (obj_set k (n + 1) kvs)
      | Absent \<Rightarrow> Some (obj_set k 1 kvs)
      | Inherited \<Rightarrow> if k = ''__proto__'' then Some kvs else None)"

function dec :: "int \<Rightarrow> string" where
  \<comment> \<open>The decimal digits of a number that is not negative.\<close>
  "dec n = (if n < 10 then [char_of (48 + n)] else dec (n div 10) @ [char_of (48 + n mod 10)])"
  by pat_completeness auto
termination
  by (relation "measure nat") auto

declare dec.simps [simp del]

definition show_int :: "int \<Rightarrow> string" where
  \<comment> \<open>The text of an integer in a template literal.\<close>
  "show_int i = (if i < 0 then CHR ''-'' # dec (- i) else dec i)"

fun join :: "string \<Rightarrow> string list \<Rightarrow> string" where
  "join sep [] = []"
| "join sep [x] = x"
| "join sep (x # y # ys) = x @ sep @ join sep (y # ys)"

section \<open>The SQL the module emits\<close>

text \<open>
  Each statement is kept as a term with one constructor per construct of the template
  literals in the source; \<open>render_stmt\<close> below gives back the text the source builds.
\<close>

datatype sqlexpr =
    Num int
  | Col string
  | Plus sqlexpr sqlexpr
  | IfNull sqlexpr sqlexpr
  | JsonGet sqlexpr string
  | JsonSet sqlexpr "(string \<times> sqlexpr) list"
  | JsonObject "(string \<times> sqlexpr) list"

datatype assign = Assign string sqlexpr

datatype cond = TimeEq string | IdEq string

datatype stmt =
    Update string "assign list" cond
  | Insert string "string list" string "sqlexpr list" "assign list"

fun is_insert :: "stmt \<Rightarrow> bool" where
  "is_insert (Insert t ks d vs us) = True"
| "is_insert (Update t us c) = False"

fun is_update :: "stmt \<Rightarrow> bool" where
  "is_update (Update t us c) = True"
| "is_update (Insert t ks d vs us) = False"

fun stmt_key :: "stmt \<Rightarrow> string" where
  "stmt_key (Insert t ks d vs us) = d"
| "stmt_key (Update t us (TimeEq d)) = d"
| "stmt_key (Update t us (IdEq i)) = i"

fun stmt_values :: "stmt \<Rightarrow> (string \<times> sqlexpr) list" where
  \<comment> \<open>The columns of an \<^verbatim>\<open>INSERT\<close> with the values it gives them (\<^verbatim>\<open>time\<close> apart).\<close>
  "stmt_values (Insert t ks d vs us) = zip ks vs"
| "stmt_values (Update t us c) = []"

fun stmt_assigns :: "stmt \<Rightarrow> assign list" where
  "stmt_assigns (Insert t ks d vs us) = us"
| "stmt_assigns (Update t us c) = us"

definition bq :: "string \<Rightarrow> string" where
  "bq s = ''`'' @ s @ ''`''"

definition json_path :: "string \<Rightarrow> string" where
  "json_path k = [CHR 0x27] @ ''$.'' @ [CHR 0x22] @ k @ [CHR 0x22] @ [CHR 0x27]"

fun render_expr :: "sqlexpr \<Rightarrow> string"
  and render_pairs :: "(string \<times> sqlexpr) list \<Rightarrow> string list"
  and render_members :: "(string \<times> sqlexpr) list \<Rightarrow> string list" where
  "render_expr (Num n) = show_int n"
| "render_expr (Col c) = bq c"
| "render_expr (Plus a b) = render_expr a @ '' + '' @ render_expr b"
| "render_expr (IfNull a b) = ''IFNULL('' @ render_expr a @ '', '' @ render_expr b @ '')''"
| "render_expr (JsonGet a k) = render_expr a @ ''->'' @ json_path k"
| "render_expr (JsonSet a ps) = ''JSON_SET('' @ render_expr a @ '', '' @ join '', '' (render_pairs ps) @ '')''"
| "render_expr (JsonObject ms) = ''JSON_OBJECT('' @ join '', '' (render_members ms) @ '')''"
| "render_pairs [] = []"
| "render_pairs ((k, e) # ps) = (json_path k @ '', '' @ render_expr e) # render_pairs ps"
| "render_members [] = []"
| "render_members ((k, e) # ms) = ([CHR 0x27] @ k @ [CHR 0x27] @ '', '' @ render_expr e) # render_members ms"

fun render_assign :: "assign \<Rightarrow> string" where
  "render_assign (Assign c e) = bq c @ '' = '' @ render_expr e"

definition joinKeys :: "string list \<Rightarrow> string" where
  "joinKeys keys = join '','' (map bq keys)"

fun render_cond :: "cond \<Rightarrow> string" where
  "render_cond (TimeEq d) = bq ''time'' @ '' = '' @ [CHR 0x22] @ d @ [CHR 0x22]"
| "render_cond (IdEq i) = bq ''id'' @ '' = '' @ i"

fun render_stmt :: "stmt \<Rightarrow> string" where
  "render_stmt (Update t us c) =
     ''UPDATE '' @ bq t @ '' SET '' @ join '', '' (map render_assign us) @ '' WHERE '' @ render_cond c"
| "render_stmt (Insert t ks d vs us) =
     ''INSERT INTO '' @ bq t @ '' ('' @ bq ''time'' @ '', '' @ joinKeys ks @ '') VALUES (''
       @ [CHR 0x22] @ d @ [CHR 0x22] @ '', '' @ join '', '' (map render_expr vs)
       @ '') ON DUPLICATE KEY UPDATE '' @ join '', '' (map render_assign us)"

section \<open>The accumulators: class \<^verbatim>\<open>Stat\<close>\<close>

text \<open>
  \<^verbatim>\<open>StatConfig<V>\<close> and the abstract class \<^verbatim>\<open>Stat<K, V>\<close>. The configuration's
  \<^verbatim>\<open>update\<close> returns a string or \<^verbatim>\<open>undefined\<close>; here an assignment or \<open>None\<close>.
  The field \<^verbatim>\<open>fields\<close> is \<open>fields_of\<close> and the configuration's \<^verbatim>\<open>setup\<close> is
  \<open>setup_v\<close> (both names are taken in Isabelle). The private field \<^verbatim>\<open>key\<close> starts as \<^verbatim>\<open>null\<close>, here \<open>None\<close>.
\<close>

record 'v StatConfig =
  setup_v :: "'v"
  create :: "'v \<Rightarrow> sqlexpr"
  update :: "string \<Rightarrow> 'v \<Rightarrow> assign option"

record 'v Stat =
  data :: "'v obj"
  key :: "string option"
  table :: string
  fields_of :: "string list"
  config :: "'v StatConfig"

definition Stat_clear :: "'v Stat \<Rightarrow> 'v Stat" where
  \<comment> \<open>\<^verbatim>\<open>for (const key of this.fields) this.data[key] = this.config.setup()\<close>\<close>
  "Stat_clear s = s\<lparr>data := foldl (\<lambda>d f. obj_set f (setup_v (config s)) d) (data s) (fields_of s)\<rparr>"

definition new_Stat :: "string \<Rightarrow> string list \<Rightarrow> 'v StatConfig \<Rightarrow> 'v Stat" where
  \<comment> \<open>The constructor: \<^verbatim>\<open>data = {}\<close>, \<^verbatim>\<open>key = null\<close>, then \<^verbatim>\<open>this.clear()\<close>.\<close>
  "new_Stat t fs c = Stat_clear \<lparr>data = [], key = None, table = t, fields_of = fs, config = c\<rparr>"

definition Stat_updates :: "'v Stat \<Rightarrow> assign list" where
  \<comment> \<open>The loop of \<^verbatim>\<open>Stat.update\<close> that collects the non-empty updates.\<close>
  "Stat_updates s = List.map_filter (\<lambda>(name, v). update (config s) name v) (data s)"

definition Stat_update :: "string \<Rightarrow> stmt list \<Rightarrow> 'v Stat \<Rightarrow> 'v Stat \<times> stmt list" where
  \<comment> \<open>\<^verbatim>\<open>update(date, sqls)\<close>: the array \<^verbatim>\<open>sqls\<close> is returned extended.\<close>
  "Stat_update date sqls s =
     (let updates = Stat_updates s in
      if updates = [] then (s, sqls)
      else if Some date = key s
      then (Stat_clear s, sqls @ [Update (table s) updates (TimeEq date)])
      else (Stat_clear (s\<lparr>key := Some date\<rparr>),
            sqls @ [Insert (table s) (map fst (data s)) date
                      (map (\<lambda>(name, v). create (config s) v) (data s)) updates]))"

subsection \<open>\<^verbatim>\<open>Stat.Recorded\<close>\<close>

type_synonym StatRecord = "int obj"

definition merge_pairs :: "string \<Rightarrow> StatRecord \<Rightarrow> (string \<times> sqlexpr) list" where
  \<comment> \<open>The path and value arguments of \<^verbatim>\<open>JSON_SET\<close> in the \<^verbatim>\<open>update\<close> of the
      configuration: one pair per entry of the nested record.\<close>
  "merge_pairs name v = map (\<lambda>(k, n). (k, Plus (IfNull (JsonGet (Col name) k) (Num 0)) (Num n))) v"

definition Recorded_config :: "StatRecord StatConfig" where
  "Recorded_config =
     \<lparr>setup_v = [],
      create = (\<lambda>v. JsonObject (map (\<lambda>(k, n). (k, Num n)) v)),
      update = (\<lambda>name v.
        if v = [] then None
        else Some (Assign name (JsonSet (Col name) (merge_pairs name v))))\<rparr>"

definition Recorded :: "string \<Rightarrow> string list \<Rightarrow> StatRecord Stat" where
  "Recorded t fs = new_Stat t fs Recorded_config"

definition Recorded_add :: "string \<Rightarrow> string \<Rightarrow> StatRecord Stat \<Rightarrow> StatRecord Stat option" where
  \<comment> \<open>\<^verbatim>\<open>add(field, key)\<close>: \<^verbatim>\<open>stat[key] = (stat[key] || 0) + 1\<close> on the object
      \<^verbatim>\<open>this.data[field]\<close>, which \<^verbatim>\<open>setup\<close> created as \<^verbatim>\<open>{}\<close>. The type \<^verbatim>\<open>K\<close>
      admits declared fields only; for any other field \<^verbatim>\<open>this.data[field]\<close> is
      \<^verbatim>\<open>undefined\<close>, on which the assignment throws a TypeError, or a value of
      \<^verbatim>\<open>Object.prototype\<close>: \<open>None\<close>. The result is \<open>None\<close> also where the nested
      record would come to hold a text (see \<open>count_up\<close>).\<close>
  "Recorded_add field k s =
     (case obj_get (data s) field of
        None \<Rightarrow> None
      | Some stat \<Rightarrow>
          map_option (\<lambda>stat'. s\<lparr>data := obj_set field stat' (data s)\<rparr>) (count_up k stat))"

subsection \<open>\<^verbatim>\<open>Stat.Numerical\<close>\<close>

definition Numerical_config :: "int StatConfig" where
  "Numerical_config =
     \<lparr>setup_v = 0,
      create = (\<lambda>v. Num v),
      update = (\<lambda>k v. if v = 0 then None else Some (Assign k (Plus (Col k) (Num v))))\<rparr>"

definition Numerical :: "string \<Rightarrow> string list \<Rightarrow> int Stat" where
  "Numerical t fs = new_Stat t fs Numerical_config"

definition bump :: "string \<Rightarrow> int obj \<Rightarrow> int obj" where
  \<comment> \<open>\<^verbatim>\<open>data[field] += 1\<close> on an object that has the field.\<close>
  "bump field d = obj_set field (or0 (obj_get d field) + 1) d"

definition Numerical_inc :: "string \<Rightarrow> int Stat \<Rightarrow> int Stat option" where
  \<comment> \<open>\<^verbatim>\<open>stat.data[field] += 1\<close>. The type \<^verbatim>\<open>Record<K, number>\<close> admits declared fields
      only; on any other name JavaScript would store \<^verbatim>\<open>NaN\<close> (or, under a name of
      \<^verbatim>\<open>Object.prototype\<close>, a text), which is outside this model: \<open>None\<close>.\<close>
  "Numerical_inc field s =
     (case obj_get (data s) field of
        None \<Rightarrow> None
      | Some n \<Rightarrow> Some (s\<lparr>data := bump field (data s)\<rparr>))"

definition dailyFields :: "string list" where
  "dailyFields = [''command'', ''dialogue'', ''botSend'', ''botReceive'', ''group'']"

definition hourlyFields :: "string list" where
  "hourlyFields = [''total'', ''group'', ''private'', ''command'', ''dialogue'']"

definition longtermFields :: "string list" where
  "longtermFields = [''message'']"

section \<open>The flush: \<^verbatim>\<open>updateStats\<close>\<close>

text \<open>
  The module's state is its three accumulators, the ledger \<^verbatim>\<open>groups\<close> of pending
  per-channel increments, and \<^verbatim>\<open>lastUpdate\<close>, \<^verbatim>\<open>updateHour\<close>, \<^verbatim>\<open>updateNumber\<close>.
  The clock is an input: a \<^verbatim>\<open>Date\<close> is what \<^verbatim>\<open>new Date()\<close> returned, read through
  \<^verbatim>\<open>+date\<close> (milliseconds), \<^verbatim>\<open>getHours()\<close> and \<^verbatim>\<open>toLocaleDateString('zh-CN')\<close>, and
  the result of \<^verbatim>\<open>Time.getDateNumber()\<close> (a function of the host framework, read after
  the date) is a second input.
\<close>

record Date =
  getTime :: int
  getHours :: int
  toLocaleDateString :: string

record Stats =
  daily :: "StatRecord Stat"
  hourly :: "int Stat"
  longterm :: "int Stat"
  groups :: "int obj"
  lastUpdate :: Date
  updateHour :: int
  updateNumber :: int

definition init_Stats :: "Date \<Rightarrow> int \<Rightarrow> Stats" where
  \<comment> \<open>The module's top-level initialisation.\<close>
  "init_Stats date n =
     \<lparr>daily = Recorded ''stats_daily'' dailyFields,
      hourly = Numerical ''stats_hourly'' hourlyFields,
      longterm = Numerical ''stats_longterm'' longtermFields,
      groups = [],
      lastUpdate = date,
      updateHour = getHours date,
      updateNumber = n\<rparr>"

definition REFRESH_INTERVAL :: int where
  "REFRESH_INTERVAL = 60000"

definition activity_update :: "int \<Rightarrow> string \<Rightarrow> int \<Rightarrow> stmt" where
  \<comment> \<open>The statement pushed for one entry of \<^verbatim>\<open>groups\<close>. (Its template spreads the
      text over several lines; \<open>render_stmt\<close> gives it on one.)\<close>
  "activity_update n i c =
     Update ''channel''
       [Assign ''activity'' (JsonSet (Col ''activity'')
          [(show_int n, Plus (IfNull (JsonGet (Col ''activity'') (show_int n)) (Num 0)) (Num c))])]
       (IdEq i)"

fun drain_groups :: "int \<Rightarrow> int obj \<Rightarrow> stmt list \<Rightarrow> int obj \<times> stmt list" where
  \<comment> \<open>\<^verbatim>\<open>for (const id in groups) { sqls.push(...); delete groups[id] }\<close>\<close>
  "drain_groups n [] sqls = ([], sqls)"
| "drain_groups n ((i, c) # g) sqls = drain_groups n g (sqls @ [activity_update n i c])"

datatype outcome =
    NotDue
  | NothingToWrite
  | Query "stmt list"

definition hourString :: "Date \<Rightarrow> string" where
  "hourString date = toLocaleDateString date @ ''-'' @ show_int (getHours date) @ '':00''"

definition flush_due :: "Date \<Rightarrow> bool \<Rightarrow> Stats \<Rightarrow> bool" where
  \<comment> \<open>The condition of the \<^verbatim>\<open>if\<close> in \<^verbatim>\<open>updateStats\<close>.\<close>
  "flush_due date forced st =
     (forced \<or> getTime date - getTime (lastUpdate st) > REFRESH_INTERVAL \<or> getHours date \<noteq> updateHour st)"

definition updateStats :: "Date \<Rightarrow> int \<Rightarrow> bool \<Rightarrow> Stats \<Rightarrow> Stats \<times> outcome" where
  \<comment> \<open>\<^verbatim>\<open>updateStats(db, forced)\<close> up to its call of \<^verbatim>\<open>db.query(sqls)\<close>: the new state, and
      \<open>Query sqls\<close> when the query is issued, \<open>NothingToWrite\<close> at the early return on an
      empty \<^verbatim>\<open>sqls\<close>, \<open>NotDue\<close> when the condition fails. Nothing after the query touches
      the state, whether the query succeeds or not.\<close>
  "updateStats date n forced st =
     (if flush_due date forced st then
        (let dateString = toLocaleDateString date;
             (h, sqls1) = Stat_update (hourString date) [] (hourly st);
             (d, sqls2) = Stat_update dateString sqls1 (daily st);
             (l, sqls3) = Stat_update dateString sqls2 (longterm st);
             (g, sqls4) = drain_groups n (groups st) sqls3
         in (st\<lparr>lastUpdate := date, updateHour := getHours date, updateNumber := n,
                hourly := h, daily := d, longterm := l, groups := g\<rparr>,
             if sqls4 = [] then NothingToWrite else Query sqls4))
      else (st, NotDue))"

subsection \<open>The event handlers of \<^verbatim>\<open>Statistics.apply\<close>\<close>

record Session =
  subtype :: string
  selfId :: string
  groupId :: string

definition groups_add :: "string \<Rightarrow> int obj \<Rightarrow> int obj option" where
  \<comment> \<open>\<^verbatim>\<open>groups[id] = (groups[id] || 0) + 1\<close> on the plain object \<^verbatim>\<open>groups\<close>.\<close>
  "groups_add i g = count_up i g"

definition count_send :: "Session \<Rightarrow> Stats \<Rightarrow> Stats option" where
  \<comment> \<open>The increments of \<^verbatim>\<open>updateSendStats\<close>, before its call of \<^verbatim>\<open>updateStats\<close>.\<close>
  "count_send session st =
     Option.bind (Numerical_inc ''total'' (hourly st)) (\<lambda>h1.
     Option.bind (Numerical_inc (subtype session) h1) (\<lambda>h2.
     Option.bind (Numerical_inc ''message'' (longterm st)) (\<lambda>l1.
     Option.bind (Recorded_add ''botSend'' (selfId session) (daily st)) (\<lambda>d1.
       if subtype session = ''group''
       then Option.bind (Recorded_add ''group'' (groupId session) d1) (\<lambda>d2.
            Option.bind (groups_add (groupId session) (groups st)) (\<lambda>g.
              Some (st\<lparr>hourly := h2, longterm := l1, daily := d2, groups := g\<rparr>)))
       else Some (st\<lparr>hourly := h2, longterm := l1, daily := d1\<rparr>)))))"

definition updateSendStats :: "Session \<Rightarrow> Date \<Rightarrow> int \<Rightarrow> Stats \<Rightarrow> (Stats \<times> outcome) option" where
  "updateSendStats session date n st = map_option (updateStats date n False) (count_send session st)"

definition on_command :: "string \<Rightarrow> Date \<Rightarrow> int \<Rightarrow> Stats \<Rightarrow> (Stats \<times> outcome) option" where
  \<comment> \<open>The \<^verbatim>\<open>before command\<close> handler for a command outside \<^verbatim>\<open>test\<close>:
      \<^verbatim>\<open>daily.add('command', name); updateStats(db)\<close>.\<close>
  "on_command name date n st =
     map_option (\<lambda>d. updateStats date n False (st\<lparr>daily := d\<rparr>)) (Recorded_add ''command'' name (daily st))"

definition on_dialogue :: "string \<Rightarrow> Date \<Rightarrow> int \<Rightarrow> Stats \<Rightarrow> (Stats \<times> outcome) option" where
  \<comment> \<open>The \<^verbatim>\<open>dialogue/before-send\<close> handler: \<^verbatim>\<open>daily.add('dialogue', dialogue.id); updateStats(db)\<close>.\<close>
  "on_dialogue i date n st =
     map_option (\<lambda>d. updateStats date n False (st\<lparr>daily := d\<rparr>)) (Recorded_add ''dialogue'' i (daily st))"

definition on_message :: "Session \<Rightarrow> Stats \<Rightarrow> Stats option" where
  \<comment> \<open>The \<^verbatim>\<open>message\<close> handler: \<^verbatim>\<open>daily.add('botReceive', session.selfId)\<close>, with no flush check.\<close>
  "on_message session st =
     map_option (\<lambda>d. st\<lparr>daily := d\<rparr>) (Recorded_add ''botReceive'' (selfId session) (daily st))"

section \<open>Runs of one accumulator\<close>

text \<open>
  A run of one accumulator is a list of rounds: in each round the data change in some way
  (by increments, say) and the accumulator is then flushed under a bucket key. \<open>flushes\<close>
  gives the state after the run and the statements the run emitted, in order.
\<close>

fun flushes :: "'v Stat \<Rightarrow> (('v obj \<Rightarrow> 'v obj) \<times> string) list \<Rightarrow> 'v Stat \<times> stmt list" where
  "flushes s [] = (s, [])"
| "flushes s ((f, d) # rounds) =
     (let (s1, out1) = Stat_update d [] (s\<lparr>data := f (data s)\<rparr>);
          (s2, out2) = flushes s1 rounds
      in (s2, out1 @ out2))"

fun insert_iff_new_key :: "string option \<Rightarrow> stmt list \<Rightarrow> bool" where
  \<comment> \<open>Each statement of the list is an \<^verbatim>\<open>INSERT\<close> exactly when its bucket key differs
      from the key of the statement before it (from \<open>k\<close> for the first), and an
      \<^verbatim>\<open>UPDATE\<close> exactly when it is the same.\<close>
  "insert_iff_new_key k [] = True"
| "insert_iff_new_key k (q # qs) =
     (is_insert q = (k \<noteq> Some (stmt_key q)) \<and> is_update q = (k = Some (stmt_key q))
      \<and> insert_iff_new_key (Some (stmt_key q)) qs)"

fun kind_and_key :: "stmt \<Rightarrow> string \<times> string" where
  "kind_and_key (Insert t ks d vs us) = (''INSERT'', d)"
| "kind_and_key (Update t us c) = (''UPDATE'', stmt_key (Update t us c))"


fun Recorded_adds :: "(string \<times> string) list \<Rightarrow> StatRecord Stat \<Rightarrow> StatRecord Stat option" where
  \<comment> \<open>A sequence of calls \<^verbatim>\<open>add(field, key)\<close>.\<close>
  "Recorded_adds [] s = Some s"
| "Recorded_adds ((f, k) # fks) s = Option.bind (Recorded_add f k s) (Recorded_adds fks)"



fun sends :: "(Session \<times> Date \<times> int) list \<Rightarrow> Stats \<Rightarrow> (Stats \<times> outcome list) option" where
  \<comment> \<open>A sequence of \<^verbatim>\<open>before-send\<close> events, each with the clock readings of its flush
      check; the outcomes of the flush checks are collected in order.\<close>
  "sends [] st = Some (st, [])"
| "sends ((session, date, n) # evs) st =
     (case updateSendStats session date n st of
        None \<Rightarrow> None
      | Some (st1, out) \<Rightarrow> map_option (\<lambda>(st2, outs). (st2, out # outs)) (sends evs st1))"

section \<open>The meaning of the emitted statements\<close>

text \<open>
  What MySQL does with the statements is not code of this module; the evaluator below
  follows the MySQL reference manual for the constructs the module emits.
  A row maps column names to values. A value is \<open>Null\<close>, a number, or a JSON object with
  numbers as members (the only documents the module writes). \<open>None\<close> stands for a
  statement that fails (an unknown column, an operand of the wrong type).
  \<^item> \<^verbatim>\<open>a + b\<close> adds two numbers and is \<^verbatim>\<open>NULL\<close> when an operand is.
  \<^item> \<^verbatim>\<open>IFNULL(a, b)\<close> is \<open>b\<close> when \<open>a\<close> is \<^verbatim>\<open>NULL\<close>, and \<open>a\<close> otherwise.
  \<^item> \<^verbatim>\<open>doc->'$."k"'\<close> is the member \<open>k\<close> of the object, \<^verbatim>\<open>NULL\<close> when there is none.
  \<^item> \<^verbatim>\<open>JSON_SET(doc, path, val, ...)\<close> evaluates its arguments, then sets the members from
    left to right, replacing a member that exists and adding one that does not; it is
    \<^verbatim>\<open>NULL\<close> when the document is.
  \<^item> \<^verbatim>\<open>JSON_OBJECT(k, v, ...)\<close> builds the object with these members.
  \<^item> \<^verbatim>\<open>UPDATE ... SET ... WHERE key = k\<close> evaluates its assignments from left to right on
    the row with that key, and changes nothing when there is no such row.
  \<^item> \<^verbatim>\<open>INSERT ... ON DUPLICATE KEY UPDATE ...\<close> adds the row when the key is new, and
    otherwise applies the assignments to the row that has it.
  A table is the list of its rows under their primary keys (\<^verbatim>\<open>time\<close>, or \<^verbatim>\<open>id\<close> for
  \<^verbatim>\<open>channel\<close>).
\<close>

datatype sqlval = Null | Number int | Json "(string \<times> int) list"

type_synonym row = "(string \<times> sqlval) list"

fun eval :: "row \<Rightarrow> sqlexpr \<Rightarrow> sqlval option"
  and eval_pairs :: "row \<Rightarrow> (string \<times> sqlexpr) list \<Rightarrow> (string \<times> int) list option" where
  "eval r (Num n) = Some (Number n)"
| "eval r (Col c) = map_of r c"
| "eval r (Plus a b) =
     (case (eval r a, eval r b) of
        (Some (Number x), Some (Number y)) \<Rightarrow> Some (Number (x + y))
      | (Some Null, Some (Number y)) \<Rightarrow> Some Null
      | (Some (Number x), Some Null) \<Rightarrow> Some Null
      | (Some Null, Some Null) \<Rightarrow> Some Null
      | _ \<Rightarrow> None)"
| "eval r (IfNull a b) = (case eval r a of Some Null \<Rightarrow> eval r b | v \<Rightarrow> v)"
| "eval r (JsonGet a k) =
     (case eval r a of
        Some (Json m) \<Rightarrow> (case map_of m k of None \<Rightarrow> Some Null | Some n \<Rightarrow> Some (Number n))
      | Some Null \<Rightarrow> Some Null
      | _ \<Rightarrow> None)"
| "eval r (JsonSet a ps) =
     (case (eval r a, eval_pairs r ps) of
        (Some (Json m), Some kvs) \<Rightarrow> Some (Json (fold (\<lambda>(k, n). AList.update k n) kvs m))
      | (Some Null, Some kvs) \<Rightarrow> Some Null
      | _ \<Rightarrow> None)"
| "eval r (JsonObject ms) = map_option (\<lambda>kvs. Json (fold (\<lambda>(k, n). AList.update k n) kvs [])) (eval_pairs r ms)"
| "eval_pairs r [] = Some []"
| "eval_pairs r ((k, e) # ps) =
     (case (eval r e, eval_pairs r ps) of
        (Some (Number n), Some kvs) \<Rightarrow> Some ((k, n) # kvs)
      | _ \<Rightarrow> None)"

fun apply_assigns :: "assign list \<Rightarrow> row \<Rightarrow> row option" where
  "apply_assigns [] r = Some r"
| "apply_assigns (Assign c e # us) r =
     (case (map_of r c, eval r e) of
        (Some old, Some v) \<Rightarrow> apply_assigns us (AList.update c v r)
      | _ \<Rightarrow> None)"

type_synonym tbl = "(string \<times> row) list"

fun new_row :: "string list \<Rightarrow> sqlexpr list \<Rightarrow> row option" where
  "new_row [] [] = Some []"
| "new_row (k # ks) (v # vs) =
     (case (eval [] v, new_row ks vs) of (Some x, Some r) \<Rightarrow> Some ((k, x) # r) | _ \<Rightarrow> None)"
| "new_row ks vs = None"

fun exec :: "stmt \<Rightarrow> tbl \<Rightarrow> tbl option" where
  \<comment> \<open>One statement on the table it names.\<close>
  "exec (Update t us c) rows =
     (case map_of rows (stmt_key (Update t us c)) of
        None \<Rightarrow> Some rows
      | Some r \<Rightarrow> map_option (\<lambda>r'. AList.update (stmt_key (Update t us c)) r' rows) (apply_assigns us r))"
| "exec (Insert t ks d vs us) rows =
     (case map_of rows d of
        None \<Rightarrow> map_option (\<lambda>r. rows @ [(d, r)]) (new_row ks vs)
      | Some r \<Rightarrow> map_option (\<lambda>r'. AList.update d r' rows) (apply_assigns us r))"

definition merge_into :: "(string \<times> int) list \<Rightarrow> StatRecord \<Rightarrow> string \<Rightarrow> int option" where
  \<comment> \<open>The per-key merge of a pending record into a stored object, as a lookup: a key
      with a pending count gets the stored value (\<open>0\<close> when absent) plus the count, every
      other key keeps what is stored.\<close>
  "merge_into stored pending k =
     (case map_of pending k of
        None \<Rightarrow> map_of stored k
      | Some n \<Rightarrow> Some (or0 (map_of stored k) + n))"

fun exec_all :: "stmt list \<Rightarrow> tbl \<Rightarrow> tbl option" where
  "exec_all [] rows = Some rows"
| "exec_all (q # qs) rows = Option.bind (exec q rows) (exec_all qs)"

fun add_and_flush ::
  "((string \<times> string) list \<times> string) list \<Rightarrow> StatRecord Stat \<Rightarrow> tbl \<Rightarrow> (stmt list \<times> tbl) option" where
  \<comment> \<open>Rounds of a recorded accumulator against its table: in each round some calls of
      \<^verbatim>\<open>add\<close>, then a flush under a bucket key, whose statements are executed.\<close>
  "add_and_flush [] s rows = Some ([], rows)"
| "add_and_flush ((adds, d) # rounds) s rows =
     (case Recorded_adds adds s of
        None \<Rightarrow> None
      | Some s1 \<Rightarrow>
          (case exec_all (snd (Stat_update d [] s1)) rows of
             None \<Rightarrow> None
           | Some rows1 \<Rightarrow>
               map_option (\<lambda>(outs, rows2). (snd (Stat_update d [] s1) @ outs, rows2))
                 (add_and_flush rounds (fst (Stat_update d [] s1)) rows1)))"

section \<open>The snapshot: \<^verbatim>\<open>average\<close> and \<^verbatim>\<open>getStatusData\<close>\<close>

text \<open>
  \<^verbatim>\<open>average\<close> reads its records property by property and keeps the numbers. A property
  value is a number (the counters the tables hold are integers) or something else, such as
  the \<^verbatim>\<open>Date\<close> in the column \<^verbatim>\<open>time\<close>; a record that is \<^verbatim>\<open>null\<close> or \<^verbatim>\<open>undefined\<close> has
  no property to enumerate and is the empty list here. The quotient by \<^verbatim>\<open>RECENT_LENGTH\<close>
  is a rational number; \<open>toFixed1\<close> is \<^verbatim>\<open>+x.toFixed(1)\<close>, the nearest multiple of one
  tenth with ties away from zero (the JavaScript number is the double nearest to it). The
  sums are integers, as they are in JavaScript as long as every sum stays below \<open>2^53\<close>;
  below \<open>5 * 2^48\<close> the double of the quotient lies within a twentieth of it, so that
  \<^verbatim>\<open>toFixed(1)\<close> prints the digits of the exact quotient.

  \<^verbatim>\<open>result\<close> is a plain object: under a name of \<^verbatim>\<open>Object.prototype\<close> that it does
  not own yet, \<^verbatim>\<open>result[key] || 0\<close> is the inherited value, and its sum with a number is
  a text. Assigned to \<^verbatim>\<open>__proto__\<close> the text is dropped; under any other such name
  \<^verbatim>\<open>result\<close> then owns the text, to which later numbers are appended, and whose
  quotient by \<^verbatim>\<open>RECENT_LENGTH\<close> is \<^verbatim>\<open>NaN\<close>.
\<close>

datatype jsval = JNum int | JOther

datatype total = Sum int | Text

datatype jsnum = Val rat | NaN

definition RECENT_LENGTH :: nat where
  "RECENT_LENGTH = 5"

definition toFixed1 :: "rat \<Rightarrow> rat" where
  "toFixed1 x = (if x < 0 then - (of_int \<lfloor>- x * 10 + 1 / 2\<rfloor> / 10) else of_int \<lfloor>x * 10 + 1 / 2\<rfloor> / 10)"

definition add_number :: "string \<Rightarrow> int \<Rightarrow> total obj \<Rightarrow> total obj" where
  \<comment> \<open>\<^verbatim>\<open>result[key] = (result[key] || 0) + n\<close> for a number \<^verbatim>\<open>n\<close>.\<close>
  "add_number k n result =
     (case lookup result k of
        Own (Sum s) \<Rightarrow> obj_set k (Sum (s + n)) result
      | Own Text \<Rightarrow> obj_set k Text result
      | Absent \<Rightarrow> obj_set k (Sum n) result
      | Inherited \<Rightarrow> if k = ''__proto__'' then result else obj_set k Text result)"

fun add_stat :: "jsval obj \<Rightarrow> total obj \<Rightarrow> total obj" where
  \<comment> \<open>The body of \<^verbatim>\<open>forEach\<close>: \<^verbatim>\<open>result[key] = (result[key] || 0) + stat[key]\<close> for every
      property of \<^verbatim>\<open>stat\<close> that holds a number.\<close>
  "add_stat [] result = result"
| "add_stat ((k, JNum n) # stat) result = add_stat stat (add_number k n result)"
| "add_stat ((k, JOther) # stat) result = add_stat stat result"

definition quotient :: "total \<Rightarrow> jsnum" where
  \<comment> \<open>\<^verbatim>\<open>+(result[key] / RECENT_LENGTH).toFixed(1)\<close>\<close>
  "quotient v = (case v of Sum s \<Rightarrow> Val (toFixed1 (of_int s / of_nat RECENT_LENGTH)) | Text \<Rightarrow> NaN)"

definition average :: "jsval obj list \<Rightarrow> jsnum obj" where
  "average stats =
     map (\<lambda>(k, v). (k, quotient v)) (fold add_stat (take RECENT_LENGTH stats) [])"




definition numbers :: "StatRecord \<Rightarrow> jsval obj" where
  \<comment> \<open>A \<^verbatim>\<open>StatRecord\<close> as \<^verbatim>\<open>average\<close> reads it.\<close>
  "numbers v = map (\<lambda>(k, n). (k, JNum n)) v"

subsection \<open>\<^verbatim>\<open>getStatusData\<close>\<close>

text \<open>
  What \<^verbatim>\<open>getStatusData\<close> receives from outside is an input of the model: the result of
  the batch of four queries, the bots with the outcome of each one's \<^verbatim>\<open>getGroupList()\<close>,
  the lookup \<^verbatim>\<open>app.bots[assignee]\<close>, and the outcomes of \<^verbatim>\<open>db.update\<close> and of
  \<^verbatim>\<open>getDialoguesById\<close>. An awaited call that rejects and a \<^verbatim>\<open>TypeError\<close> thrown by a
  property access on \<^verbatim>\<open>undefined\<close> are values of the type \<open>error\<close>. A name that is
  \<^verbatim>\<open>null\<close> or \<^verbatim>\<open>undefined\<close> is the empty string. A \<^verbatim>\<open>value\<close> or \<^verbatim>\<open>last\<close> of the
  result is \<open>None\<close> when it is not a finite number (it is \<^verbatim>\<open>undefined\<close>, \<^verbatim>\<open>NaN\<close>, or
  what an inherited property or a sum with one gives). The bodies of the calls \<^verbatim>\<open>getGroupInfo(bot)\<close> run one
  after the other, each as a whole, in the order in which the lists arrive; \<open>bots\<close> lists
  the bots in that order.
\<close>

datatype error = TypeError | Rejected

record Bot =
  platform :: string
  bot_selfId :: string
  getGroupList :: "error + (string \<times> string) list"

record DailyRow =
  command :: StatRecord
  dialogue :: StatRecord
  botSend :: StatRecord
  botReceive :: StatRecord
  group_col :: StatRecord

record HourlyRow =
  hour_of_time :: int
  columns :: "jsval obj"

record LongtermRow =
  date_of_time :: string
  message :: int

record GroupRow =
  g_id :: string
  g_name :: string
  g_assignee :: string

record DataPack =
  historyDaily :: "DailyRow list"
  historyHourly :: "HourlyRow list"
  historyLongterm :: "LongtermRow list"
  group_rows :: "GroupRow list"

record World =
  query :: "error + DataPack"
  bots :: "Bot list"
  bot_by :: "string \<Rightarrow> Bot option"
  update_channels :: "(string \<times> string) list \<Rightarrow> error + unit"
  getDialoguesById :: "string list \<Rightarrow> error + (string \<times> string) list"

record GroupData =
  gd_name :: string
  gd_platform :: string
  gd_value :: "rat option"
  gd_last :: "int option"
  gd_assignee :: string

record Statistics =
  history :: "int obj"
  commands :: "jsnum obj"
  hours :: "jsnum obj list"
  questions :: "(string \<times> rat option) list"
  group_list :: "GroupData list"

record Gathered =
  groupSet :: "string list"
  updateList :: "(string \<times> string) list"
  gathered :: "GroupData list"

definition falsy :: "jsnum property \<Rightarrow> bool" where
  \<comment> \<open>\<^verbatim>\<open>!x\<close> for what a record of averages gives under a key: \<^verbatim>\<open>undefined\<close>,
      \<^verbatim>\<open>0\<close> and \<^verbatim>\<open>NaN\<close> are falsy, an inherited function is not.\<close>
  "falsy x = (x = Absent \<or> x = Own (Val 0) \<or> x = Own NaN)"

definition finite_at :: "jsnum obj \<Rightarrow> string \<Rightarrow> rat option" where
  \<comment> \<open>\<^verbatim>\<open>map[key]\<close> of a record of averages, as a \<^verbatim>\<open>value\<close> of the result.\<close>
  "finite_at m k = (case lookup m k of Own (Val r) \<Rightarrow> Some r | _ \<Rightarrow> None)"

definition last_of :: "DailyRow list \<Rightarrow> string \<Rightarrow> error + int option" where
  \<comment> \<open>\<^verbatim>\<open>historyDaily[0].group[id]\<close>\<close>
  "last_of hist i =
     (case hist of
        [] \<Rightarrow> Inl TypeError
      | d # ds \<Rightarrow> Inr (case lookup (group_col d) i of Own n \<Rightarrow> Some n | _ \<Rightarrow> None))"

definition name_and_assignee :: "GroupRow obj \<Rightarrow> string \<Rightarrow> (string \<times> string) option" where
  \<comment> \<open>\<^verbatim>\<open>const { name, assignee } = groupMap[key]\<close>; \<open>None\<close> when \<^verbatim>\<open>groupMap[key]\<close> is
      \<^verbatim>\<open>undefined\<close> (destructuring it throws). \<^verbatim>\<open>groupMap\<close> is a plain object: of an
      inherited function \<^verbatim>\<open>name\<close> is the function's name, of \<^verbatim>\<open>Object.prototype\<close>
      it is \<^verbatim>\<open>undefined\<close>, and \<^verbatim>\<open>assignee\<close> is \<^verbatim>\<open>undefined\<close>, which as the index
      in \<^verbatim>\<open>app.bots[assignee]\<close> is the name \<^verbatim>\<open>undefined\<close>.\<close>
  "name_and_assignee groupMap k =
     (case lookup groupMap k of
        Own g \<Rightarrow> Some (g_name g, g_assignee g)
      | Absent \<Rightarrow> None
      | Inherited \<Rightarrow>
          Some (if k = ''constructor'' then ''Object'' else if k = ''__proto__'' then [] else k,
                ''undefined''))"

fun group_loop ::
  "jsnum obj \<Rightarrow> GroupRow obj \<Rightarrow> DailyRow list \<Rightarrow> (string \<Rightarrow> Bot option) \<Rightarrow> string
     \<Rightarrow> (string \<times> string) list \<Rightarrow> Gathered \<Rightarrow> error option \<times> Gathered" where
  \<comment> \<open>The loop of \<^verbatim>\<open>getGroupInfo\<close> over the list a bot returned. An exception leaves the
      loop with what was pushed before it.\<close>
  "group_loop messageMap groupMap hist bb pf [] st = (None, st)"
| "group_loop messageMap groupMap hist bb pf ((gid, name) # rest) st =
     (let i = pf @ '':'' @ gid in
      if falsy (lookup messageMap i) \<or> i \<in> set (groupSet st)
      then group_loop messageMap groupMap hist bb pf rest st
      else
        (let st1 = st\<lparr>groupSet := i # groupSet st\<rparr> in
         case name_and_assignee groupMap i of
           None \<Rightarrow> (Some TypeError, st1)
         | Some (oldName, assignee) \<Rightarrow>
             (let st2 = (if name \<noteq> oldName then st1\<lparr>updateList := updateList st1 @ [(i, name)]\<rparr> else st1) in
              case last_of hist i of
                Inl e \<Rightarrow> (Some e, st2)
              | Inr l \<Rightarrow>
                  (case bb assignee of
                     None \<Rightarrow> (Some TypeError, st2)
                   | Some b \<Rightarrow>
                       group_loop messageMap groupMap hist bb pf rest
                         (st2\<lparr>gathered := gathered st2 @
                            [\<lparr>gd_name = name, gd_platform = pf, gd_value = finite_at messageMap i,
                              gd_last = l, gd_assignee = bot_selfId b\<rparr>]\<rparr>)))))"

definition getGroupInfo ::
  "jsnum obj \<Rightarrow> GroupRow obj \<Rightarrow> DailyRow list \<Rightarrow> (string \<Rightarrow> Bot option) \<Rightarrow> Bot \<Rightarrow> Gathered
     \<Rightarrow> error option \<times> Gathered" where
  "getGroupInfo messageMap groupMap hist bb b st =
     (case getGroupList b of
        Inl e \<Rightarrow> (Some e, st)
      | Inr listed \<Rightarrow> group_loop messageMap groupMap hist bb (platform b) listed st)"

definition catch_noop :: "error option \<times> Gathered \<Rightarrow> Gathered" where
  \<comment> \<open>\<^verbatim>\<open>.catch(noop)\<close>: the rejection is dropped, what the call did before it stays.\<close>
  "catch_noop r = snd r"

definition all_group_info ::
  "jsnum obj \<Rightarrow> GroupRow obj \<Rightarrow> DailyRow list \<Rightarrow> (string \<Rightarrow> Bot option) \<Rightarrow> Bot list \<Rightarrow> Gathered \<Rightarrow> Gathered" where
  \<comment> \<open>\<^verbatim>\<open>await Promise.all(bots.map(bot => getGroupInfo(bot).catch(noop)))\<close>\<close>
  "all_group_info messageMap groupMap hist bb bs st =
     fold (\<lambda>b s. catch_noop (getGroupInfo messageMap groupMap hist bb b s)) bs st"

fun rest_loop ::
  "GroupRow obj \<Rightarrow> DailyRow list \<Rightarrow> (string \<Rightarrow> Bot option) \<Rightarrow> jsnum obj \<Rightarrow> Gathered \<Rightarrow> error + Gathered" where
  \<comment> \<open>\<^verbatim>\<open>for (const key in messageMap)\<close> with its test
      \<^verbatim>\<open>!groupSet.has(key) && groupMap[key]\<close>: the channels with recent messages that no
      bot listed. Nothing catches an exception here.\<close>
  "rest_loop groupMap hist bb [] st = Inr st"
| "rest_loop groupMap hist bb ((k, v) # rest) st =
     (case name_and_assignee groupMap k of
        None \<Rightarrow> rest_loop groupMap hist bb rest st
      | Some (name, assignee) \<Rightarrow>
          if k \<in> set (groupSet st) then rest_loop groupMap hist bb rest st
          else
            (case last_of hist k of
               Inl e \<Rightarrow> Inl e
             | Inr l \<Rightarrow>
                 (case bb assignee of
                    None \<Rightarrow> Inl TypeError
                  | Some b \<Rightarrow>
                      rest_loop groupMap hist bb rest
                        (st\<lparr>gathered := gathered st @
                           [\<lparr>gd_name = (if name = [] then k else name),
                             gd_platform = takeWhile (\<lambda>c. c \<noteq> CHR '':'') k,
                             gd_value = (case v of Val r \<Rightarrow> Some r | NaN \<Rightarrow> None),
                             gd_last = l, gd_assignee = bot_selfId b\<rparr>]\<rparr>))))"

definition add_opt :: "rat option \<Rightarrow> rat option \<Rightarrow> rat option" where
  \<comment> \<open>\<^verbatim>\<open>a + b\<close> where \<open>None\<close> is anything but a finite number.\<close>
  "add_opt a b = (case (a, b) of (Some x, Some y) \<Rightarrow> Some (x + y) | _ \<Rightarrow> None)"

fun question_loop :: "jsnum obj \<Rightarrow> (string \<times> string) list \<Rightarrow> rat option obj \<Rightarrow> rat option obj" where
  \<comment> \<open>The loop over \<^verbatim>\<open>dialogues\<close>; \<open>qm\<close> is \<^verbatim>\<open>questionMap\<close>, a plain object, with the
      \<^verbatim>\<open>value\<close> of each question. Under a name of \<^verbatim>\<open>Object.prototype\<close> the test
      \<^verbatim>\<open>!questionMap[name]\<close> fails on the inherited value and the \<^verbatim>\<open>else\<close> branch
      writes a \<^verbatim>\<open>value\<close> on that value, not on \<^verbatim>\<open>questionMap\<close>: no question is added.
      (What this write does to \<^verbatim>\<open>Object.prototype\<close> itself is outside this model.)\<close>
  "question_loop dialogueMap [] qm = qm"
| "question_loop dialogueMap ((i, name) # rest) qm =
     (if sublist ''[CQ:'' name \<or> prefix ''hook:'' name then question_loop dialogueMap rest qm
      else
        (case lookup qm name of
           Absent \<Rightarrow> question_loop dialogueMap rest (obj_set name (finite_at dialogueMap i) qm)
         | Own v \<Rightarrow> question_loop dialogueMap rest (obj_set name (add_opt v (finite_at dialogueMap i)) qm)
         | Inherited \<Rightarrow> question_loop dialogueMap rest qm))"

definition getStatusData :: "World \<Rightarrow> error + Statistics \<times> DailyRow list" where
  "getStatusData w =
     (case query w of
        Inl e \<Rightarrow> Inl e
      | Inr pack \<Rightarrow>
          (let hist = historyDaily pack;
               groupMap = fold (\<lambda>g m. obj_set (g_id g) g m) (group_rows pack) [];
               messageMap = average (map (\<lambda>data. numbers (group_col data)) hist);
               st = all_group_info messageMap groupMap hist (bot_by w) (bots w)
                      \<lparr>groupSet = [], updateList = [], gathered = []\<rparr>
           in case rest_loop groupMap hist (bot_by w) messageMap st of
                Inl e \<Rightarrow> Inl e
              | Inr st' \<Rightarrow>
                  (case update_channels w (updateList st') of
                     Inl e \<Rightarrow> Inl e
                   | Inr u \<Rightarrow>
                       (let dialogueMap = average (map (\<lambda>data. numbers (dialogue data)) hist) in
                        case getDialoguesById w (map fst dialogueMap) of
                          Inl e \<Rightarrow> Inl e
                        | Inr dialogues \<Rightarrow>
                            Inr (\<lparr>history = fold (\<lambda>stat h. obj_set (date_of_time stat) (message stat) h)
                                              (historyLongterm pack) [],
                                  commands = average (map (\<lambda>data. numbers (command data)) hist),
                                  hours = map (\<lambda>index. average (map columns
                                                 (filter (\<lambda>s. hour_of_time s = int index) (historyHourly pack))))
                                            [0..<24],
                                  questions = question_loop dialogueMap dialogues [],
                                  group_list = gathered st'\<rparr>, hist)))))"

section \<open>The cache of \<^verbatim>\<open>Statistics.patch\<close>\<close>

text \<open>
  \<^verbatim>\<open>patch\<close> keeps \<^verbatim>\<open>cachedDate\<close> and the promise \<^verbatim>\<open>cachedData\<close>, both \<^verbatim>\<open>undefined\<close>
  at first. The model runs \<^verbatim>\<open>patch\<close> up to its \<^verbatim>\<open>await\<close>, which is one uninterrupted
  step of the event loop. A promise is named by the position of its call in \<open>started\<close>,
  the list of the dates \<^verbatim>\<open>getStatusData\<close> was called with; every call of
  \<^verbatim>\<open>getStatusData\<close> issues its batch of historical queries once. The date is the clock's
  \<^verbatim>\<open>toLocaleDateString('zh-CN')\<close> and an input here.
\<close>

record Cache =
  cachedDate :: "string option"
  cachedData :: "nat option"
  started :: "string list"

definition new_Cache :: Cache where
  "new_Cache = \<lparr>cachedDate = None, cachedData = None, started = []\<rparr>"

definition patch :: "string \<Rightarrow> Cache \<Rightarrow> Cache \<times> nat option" where
  \<comment> \<open>The new cache, and the promise the request awaits.\<close>
  "patch date c =
     (let c' = (if Some date \<noteq> cachedDate c
                then c\<lparr>cachedData := Some (length (started c)), started := started c @ [date],
                       cachedDate := Some date\<rparr>
                else c)
      in (c', cachedData c'))"

fun requests :: "string list \<Rightarrow> Cache \<Rightarrow> Cache \<times> nat option list" where
  \<comment> \<open>A sequence of requests, with the promise each one awaits.\<close>
  "requests [] c = (c, [])"
| "requests (d # ds) c =
     (let (c1, p) = patch d c; (c2, ps) = requests ds c1 in (c2, p # ps))"

fun date_changes :: "string option \<Rightarrow> string list \<Rightarrow> string list" where
  \<comment> \<open>In the words of the spec: the dates at which a sequence of requests changes date,
      \<open>prev\<close> being the date before the first.\<close>
  "date_changes prev [] = []"
| "date_changes prev (d # ds) = (if prev = Some d then [] else [d]) @ date_changes (Some d) ds"

section \<open>Example inputs\<close>

text \<open>
  Three readings of the clock on 1 January 2024 in a zone eight hours ahead of UTC, at
  10:59:30, 10:59:40 and 11:00:05; the day number of that date is 19723.
\<close>

definition at_10_59_30 :: Date where
  "at_10_59_30 = \<lparr>getTime = 1704077970000, getHours = 10, toLocaleDateString = ''2024/1/1''\<rparr>"

definition at_10_59_40 :: Date where
  "at_10_59_40 = \<lparr>getTime = 1704077980000, getHours = 10, toLocaleDateString = ''2024/1/1''\<rparr>"

definition at_11_00_05 :: Date where
  "at_11_00_05 = \<lparr>getTime = 1704078005000, getHours = 11, toLocaleDateString = ''2024/1/1''\<rparr>"

definition private_msg :: Session where
  "private_msg = \<lparr>subtype = ''private'', selfId = ''77'', groupId = []\<rparr>"

definition group_msg :: Session where
  "group_msg = \<lparr>subtype = ''group'', selfId = ''77'', groupId = ''123''\<rparr>"

definition pending_example :: Stats where
  \<comment> \<open>The initial state of 10:59:30 with one pending increment of \<^verbatim>\<open>total\<close> and two
      pending messages of channel 123 in the ledger.\<close>
  "pending_example =
     (init_Stats at_10_59_30 19723)
       \<lparr>hourly := (Numerical ''stats_hourly'' hourlyFields)
                    \<lparr>data := bump ''total'' (data (Numerical ''stats_hourly'' hourlyFields))\<rparr>,
        groups := [(''123'', 2)]\<rparr>"

definition channel_example :: tbl where
  \<comment> \<open>A \<^verbatim>\<open>channel\<close> table with the row of channel 123, active on day 19722 only.\<close>
  "channel_example = [(''123'', [(''name'', Null), (''activity'', Json [(''19722'', 7)])])]"

definition unreachable_bot :: Bot where
  "unreachable_bot = \<lparr>platform = ''discord'', bot_selfId = ''1'', getGroupList = Inl Rejected\<rparr>"

definition onebot :: Bot where
  "onebot = \<lparr>platform = ''onebot'', bot_selfId = ''77'', getGroupList = Inr [(''123'', ''new name'')]\<rparr>"

definition example_bot_by :: "string \<Rightarrow> Bot option" where
  "example_bot_by a = (if a = ''onebot:77'' then Some onebot else None)"

definition all_ok :: "(string \<times> string) list \<Rightarrow> error + unit" where
  "all_ok l = Inr ()"

definition no_dialogues :: "string list \<Rightarrow> error + (string \<times> string) list" where
  "no_dialogues ids = Inr []"

definition yesterday :: DailyRow where
  "yesterday = \<lparr>command = [(''help'', 5)], dialogue = [], botSend = [(''77'', 10)], botReceive = [],
                 group_col = [(''onebot:123'', 10)]\<rparr>"

definition example_world :: World where
  "example_world =
     \<lparr>query = Inr \<lparr>historyDaily = [yesterday], historyHourly = [],
                    historyLongterm = [\<lparr>date_of_time = ''2023/12/31'', message = 10\<rparr>],
                    group_rows = [\<lparr>g_id = ''onebot:123'', g_name = ''old name'', g_assignee = ''onebot:77''\<rparr>]\<rparr>,
      bots = [unreachable_bot, onebot],
      bot_by = example_bot_by,
      update_channels = all_ok,
      getDialoguesById = no_dialogues\<rparr>"


section \<open>The text of the statements\<close>

text \<open>
  The terms stand for the text the source builds; two examples, as \<^verbatim>\<open>sqls\<close> holds them.
\<close>

lemma render_update_example:
  "render_stmt (Update ''stats_daily''
      [Assign ''command'' (JsonSet (Col ''command'')
         [(''help'', Plus (IfNull (JsonGet (Col ''command'') ''help'') (Num 0)) (Num 1))])]
      (TimeEq ''2024-01-01''))
   = ''UPDATE `stats_daily` SET `command` = JSON_SET(`command`, '$.\"help\"', IFNULL(`command`->'$.\"help\"', 0) + 1) WHERE `time` = \"2024-01-01\"''"
  by code_simp

lemma render_insert_example:
  "render_stmt (Insert ''stats_hourly'' [''total'', ''group'', ''private'', ''command'', ''dialogue'']
      ''2024/1/1-11:00'' [Num 2, Num 0, Num 2, Num 0, Num 0]
      [Assign ''total'' (Plus (Col ''total'') (Num 2)), Assign ''private'' (Plus (Col ''private'') (Num 2))])
   = ''INSERT INTO `stats_hourly` (`time`, `total`,`group`,`private`,`command`,`dialogue`) VALUES (\"2024/1/1-11:00\", 2, 0, 2, 0, 0) ON DUPLICATE KEY UPDATE `total` = `total` + 2, `private` = `private` + 2''"
  by code_simp

lemma render_insert_recorded_example:
  "map render_expr (map (create Recorded_config) [[(''help'', 3), (''echo'', 1)], []])
   = [''JSON_OBJECT('help', 3, 'echo', 1)'', ''JSON_OBJECT()'']"
  by code_simp

section \<open>Basic facts about objects and \<^verbatim>\<open>clear\<close>\<close>

lemma set_obj_insert: "set (obj_insert k v kvs) = insert (k, v) (set kvs)"
  by (induction kvs) (auto split: if_splits)

lemma map_of_obj_insert:
  "k \<notin> fst ` set kvs \<Longrightarrow> map_of (obj_insert k v kvs) = (map_of kvs)(k \<mapsto> v)"
  by (induction kvs) (auto simp: fun_upd_twist)

lemma distinct_obj_insert:
  "k \<notin> fst ` set kvs \<Longrightarrow> distinct (map fst kvs) \<Longrightarrow> distinct (map fst (obj_insert k v kvs))"
  by (induction kvs) (auto simp: set_obj_insert)

lemma map_of_obj_set: "map_of (obj_set k v kvs) = (map_of kvs)(k \<mapsto> v)"
  by (simp add: obj_set_def map_of_obj_insert update_conv')

lemma keys_obj_set: "fst ` set (obj_set k v kvs) = insert k (fst ` set kvs)"
  by (simp add: obj_set_def set_obj_insert dom_update)

lemma distinct_obj_set: "distinct (map fst kvs) \<Longrightarrow> distinct (map fst (obj_set k v kvs))"
  by (simp add: obj_set_def distinct_obj_insert distinct_update)


lemma clear_fold:
  "map_of (foldl (\<lambda>d f. obj_set f c d) D fs) = (\<lambda>k. if k \<in> set fs then Some c else map_of D k)
   \<and> fst ` set (foldl (\<lambda>d f. obj_set f c d) D fs) = fst ` set D \<union> set fs
   \<and> (distinct (map fst D) \<longrightarrow> distinct (map fst (foldl (\<lambda>d f. obj_set f c d) D fs)))"
proof (induction fs arbitrary: D)
  case Nil
  show ?case by simp
next
  case (Cons f fs)
  show ?case
    using Cons.IH [of "obj_set f c D"]
    by (auto simp: map_of_obj_set keys_obj_set distinct_obj_set fun_eq_iff)
qed


lemma Stat_clear_keys:
  "fst ` set (data (Stat_clear s)) = fst ` set (data s) \<union> set (fields_of s)"
  "distinct (map fst (data s)) \<Longrightarrow> distinct (map fst (data (Stat_clear s)))"
  using clear_fold [of "setup_v (config s)" "data s" "fields_of s"]
  by (auto simp: Stat_clear_def)

lemma Stat_clear_frame [simp]:
  "config (Stat_clear s) = config s" "fields_of (Stat_clear s) = fields_of s" "table (Stat_clear s) = table s"
  by (simp_all add: Stat_clear_def)




lemma key_Stat_clear [simp]: "key (Stat_clear s) = key s"
  by (simp add: Stat_clear_def)

lemma Stat_update_cases:
  "Stat_update d sqls s = (s, sqls) \<and> Stat_updates s = []
   \<or> (\<exists>q. Stat_update d sqls s = (Stat_clear (s\<lparr>key := Some d\<rparr>), sqls @ [q]) \<and> stmt_key q = d
        \<and> is_insert q = (key s \<noteq> Some d) \<and> is_update q = (key s = Some d)
        \<and> stmt_assigns q = Stat_updates s \<and> Stat_updates s \<noteq> [])"
  by (simp add: Stat_update_def Let_def)

section \<open>What a sequence of increments leaves pending\<close>












lemma zip_fst_map: "zip (map fst D) (map (\<lambda>(name, v). c v) D) = map (\<lambda>(name, v). (name, c v)) D"
  by (induction D) auto









lemma fresh_frame:
  "config (Numerical t fs) = Numerical_config" "fields_of (Numerical t fs) = fs"
  "config (Recorded t fs) = Recorded_config" "fields_of (Recorded t fs) = fs"
  "key (Numerical t fs) = None" "key (Recorded t fs) = None"
  "table (Numerical t fs) = t" "table (Recorded t fs) = t"
  by (simp_all add: Numerical_def Recorded_def new_Stat_def)

section \<open>Properties of the flush check\<close>

lemma drain_groups_fst: "fst (drain_groups n g sqls) = []"
  by (induction g arbitrary: sqls) auto

lemma Stat_update_append:
  "Stat_update d sqls s = (fst (Stat_update d [] s), sqls @ snd (Stat_update d [] s))"
  by (simp add: Stat_update_def Let_def)

lemma drain_groups_snd:
  "snd (drain_groups n g sqls) = sqls @ map (\<lambda>(i, c). activity_update n i c) g"
  by (induction g arbitrary: sqls) auto

lemma flushed_keys: "list_all (\<lambda>q. stmt_key q = d) (snd (Stat_update d [] s))"
  using Stat_update_cases [of d "[]" s] by auto

lemma updateStats_due:
  assumes "flush_due date forced st"
  shows "snd (updateStats date n forced st) =
      (if snd (Stat_update (hourString date) [] (hourly st))
          @ snd (Stat_update (toLocaleDateString date) [] (daily st))
          @ snd (Stat_update (toLocaleDateString date) [] (longterm st))
          @ map (\<lambda>(i, c). activity_update n i c) (groups st) = [] then NothingToWrite
       else Query (snd (Stat_update (hourString date) [] (hourly st))
          @ snd (Stat_update (toLocaleDateString date) [] (daily st))
          @ snd (Stat_update (toLocaleDateString date) [] (longterm st))
          @ map (\<lambda>(i, c). activity_update n i c) (groups st)))"
    and "fst (updateStats date n forced st) =
      st\<lparr>lastUpdate := date, updateHour := getHours date, updateNumber := n,
         hourly := fst (Stat_update (hourString date) [] (hourly st)),
         daily := fst (Stat_update (toLocaleDateString date) [] (daily st)),
         longterm := fst (Stat_update (toLocaleDateString date) [] (longterm st)),
         groups := []\<rparr>"
proof -
  obtain h s1 where h: "Stat_update (hourString date) [] (hourly st) = (h, s1)" by fastforce
  obtain d s2 where d: "Stat_update (toLocaleDateString date) s1 (daily st) = (d, s2)" by fastforce
  obtain l s3 where l: "Stat_update (toLocaleDateString date) s2 (longterm st) = (l, s3)" by fastforce
  obtain g s4 where g: "drain_groups n (groups st) s3 = (g, s4)" by fastforce
  have d': "d = fst (Stat_update (toLocaleDateString date) [] (daily st))"
      "s2 = s1 @ snd (Stat_update (toLocaleDateString date) [] (daily st))"
    using d Stat_update_append [of "toLocaleDateString date" s1 "daily st"] by simp_all
  have l': "l = fst (Stat_update (toLocaleDateString date) [] (longterm st))"
      "s3 = s2 @ snd (Stat_update (toLocaleDateString date) [] (longterm st))"
    using l Stat_update_append [of "toLocaleDateString date" s2 "longterm st"] by simp_all
  have g': "g = []" "s4 = s3 @ map (\<lambda>(i, c). activity_update n i c) (groups st)"
    using g drain_groups_fst [of n "groups st" s3] drain_groups_snd [of n "groups st" s3] by simp_all
  have u: "updateStats date n forced st =
      (st\<lparr>lastUpdate := date, updateHour := getHours date, updateNumber := n,
          hourly := h, daily := d, longterm := l, groups := g\<rparr>,
       if s4 = [] then NothingToWrite else Query s4)"
    using assms h d l g by (simp add: updateStats_def)
  show "snd (updateStats date n forced st) =
      (if snd (Stat_update (hourString date) [] (hourly st))
          @ snd (Stat_update (toLocaleDateString date) [] (daily st))
          @ snd (Stat_update (toLocaleDateString date) [] (longterm st))
          @ map (\<lambda>(i, c). activity_update n i c) (groups st) = [] then NothingToWrite
       else Query (snd (Stat_update (hourString date) [] (hourly st))
          @ snd (Stat_update (toLocaleDateString date) [] (daily st))
          @ snd (Stat_update (toLocaleDateString date) [] (longterm st))
          @ map (\<lambda>(i, c). activity_update n i c) (groups st)))"
    unfolding u using h d' l' g' by simp
  show "fst (updateStats date n forced st) =
      st\<lparr>lastUpdate := date, updateHour := getHours date, updateNumber := n,
         hourly := fst (Stat_update (hourString date) [] (hourly st)),
         daily := fst (Stat_update (toLocaleDateString date) [] (daily st)),
         longterm := fst (Stat_update (toLocaleDateString date) [] (longterm st)),
         groups := []\<rparr>"
    unfolding u using h d' l' g' by simp
qed



text \<open>
  Claim C10. A flush check that is not forced, made no more than 60000 ms after the last
  flush and in the same hour, issues no query and returns the state as it was: the
  accumulators with their data and keys, the ledger, and the recorded time, hour and day
  number.
\<close>

theorem no_flush_frame:
  "\<not> forced \<Longrightarrow> getTime date - getTime (lastUpdate st) \<le> 60000 \<Longrightarrow> getHours date = updateHour st
   \<Longrightarrow> updateStats date n forced st = (st, NotDue)"
  by (simp add: updateStats_def flush_due_def REFRESH_INTERVAL_def)

theorem no_flush_frame_witness:
  "updateStats at_10_59_40 19723 False (init_Stats at_10_59_30 19723) = (init_Stats at_10_59_30 19723, NotDue)"
  using no_flush_frame [of False at_10_59_40 "init_Stats at_10_59_30 19723" 19723]
  by (simp add: init_Stats_def at_10_59_30_def at_10_59_40_def)

section \<open>Insert or update: \<^verbatim>\<open>Stat.update\<close>\<close>

lemma key_flush:
  "snd (Stat_update d [] s) = [] \<and> key (fst (Stat_update d [] s)) = key s
   \<or> (\<exists>q. snd (Stat_update d [] s) = [q] \<and> stmt_key q = d \<and> is_insert q = (key s \<noteq> Some d)
        \<and> is_update q = (key s = Some d) \<and> key (fst (Stat_update d [] s)) = Some d)"
  using Stat_update_cases [of d "[]" s] by auto

lemma flushes_alternate: "insert_iff_new_key (key s) (snd (flushes s rounds))"
proof (induction rounds arbitrary: s)
  case Nil
  show ?case by simp
next
  case (Cons r rounds)
  obtain f d where r: "r = (f, d)" by (cases r)
  let ?s0 = "s\<lparr>data := f (data s)\<rparr>"
  let ?s1 = "fst (Stat_update d [] ?s0)"
  have k0: "key ?s0 = key s" by simp
  have out: "snd (flushes s (r # rounds)) = snd (Stat_update d [] ?s0) @ snd (flushes ?s1 rounds)"
    by (simp add: r split: prod.splits)
  from key_flush [of d ?s0] show ?case
  proof
    assume "snd (Stat_update d [] ?s0) = [] \<and> key ?s1 = key ?s0"
    then show ?thesis using Cons.IH [of ?s1] out k0 by simp
  next
    assume "\<exists>q. snd (Stat_update d [] ?s0) = [q] \<and> stmt_key q = d \<and> is_insert q = (key ?s0 \<noteq> Some d)
        \<and> is_update q = (key ?s0 = Some d) \<and> key ?s1 = Some d"
    then show ?thesis using Cons.IH [of ?s1] out k0 by auto
  qed
qed

lemma same_key_updates:
  "insert_iff_new_key k qs \<Longrightarrow> list_all (\<lambda>q. stmt_key q = d) qs \<Longrightarrow> k = Some d \<Longrightarrow> list_all is_update qs"
  by (induction qs arbitrary: k) auto

lemma flushes_keys:
  "list_all (\<lambda>r. snd r = d) rounds \<Longrightarrow> list_all (\<lambda>q. stmt_key q = d) (snd (flushes s rounds))"
proof (induction rounds arbitrary: s)
  case Nil
  show ?case by simp
next
  case (Cons r rounds)
  obtain f d' where r: "r = (f, d')" by (cases r)
  with Cons.prems have d': "d' = d" and rest: "list_all (\<lambda>r. snd r = d) rounds" by auto
  let ?s0 = "s\<lparr>data := f (data s)\<rparr>"
  let ?s1 = "fst (Stat_update d [] ?s0)"
  have out: "snd (flushes s (r # rounds)) = snd (Stat_update d [] ?s0) @ snd (flushes ?s1 rounds)"
    by (simp add: r d' split: prod.splits)
  from key_flush [of d ?s0] Cons.IH [OF rest, of ?s1] out show ?case by auto
qed

lemma flushes_subseq: "subseq (map stmt_key (snd (flushes s rounds))) (map snd rounds)"
proof (induction rounds arbitrary: s)
  case Nil
  show ?case by simp
next
  case (Cons r rounds)
  obtain f d where r: "r = (f, d)" by (cases r)
  let ?s0 = "s\<lparr>data := f (data s)\<rparr>"
  let ?s1 = "fst (Stat_update d [] ?s0)"
  have out: "snd (flushes s (r # rounds)) = snd (Stat_update d [] ?s0) @ snd (flushes ?s1 rounds)"
    by (simp add: r split: prod.splits)
  from key_flush [of d ?s0] show ?case
  proof
    assume "snd (Stat_update d [] ?s0) = [] \<and> key ?s1 = key ?s0"
    then have "snd (flushes s (r # rounds)) = snd (flushes ?s1 rounds)" using out by simp
    moreover have "subseq (map stmt_key (snd (flushes ?s1 rounds))) (d # map snd rounds)"
      using Cons.IH [of ?s1] by (rule list_emb_Cons)
    ultimately show ?thesis using r by simp
  next
    assume "\<exists>q. snd (Stat_update d [] ?s0) = [q] \<and> stmt_key q = d \<and> is_insert q = (key ?s0 \<noteq> Some d)
        \<and> is_update q = (key ?s0 = Some d) \<and> key ?s1 = Some d"
    then show ?thesis using Cons.IH [of ?s1] out r by auto
  qed
qed

text \<open>
  Claim C1, as the spec states it: an accumulator emits an \<^verbatim>\<open>INSERT\<close> for a bucket key
  only the first time it sees the key, in every sequence of flushes. The class keeps one
  key, the last one it wrote under, so a key that comes back after another one is inserted
  again: three flushes under the keys A, B, A, each with one pending increment of
  \<^verbatim>\<open>total\<close>, emit three \<^verbatim>\<open>INSERT\<close>s, two of them for A.
\<close>

theorem flush_keys_A_B_A_insert_twice_for_A:
  "map kind_and_key (snd (flushes (Numerical ''stats_hourly'' hourlyFields)
     [(bump ''total'', ''A''), (bump ''total'', ''B''), (bump ''total'', ''A'')]))
   = [(''INSERT'', ''A''), (''INSERT'', ''B''), (''INSERT'', ''A'')]"
  by code_simp

text \<open>
  Claim C1, amended. In every run of an accumulator, every flush emits at most one
  statement, under its own bucket key. The statement is an
  \<^verbatim>\<open>INSERT ... ON DUPLICATE KEY UPDATE\<close> exactly when its key differs from the key of the
  statement the accumulator emitted before it (from the key the accumulator starts with,
  for the first), and a merge-\<^verbatim>\<open>UPDATE\<close> exactly when the key is the same. So in a run of
  flushes that all use one key, every statement after the first is a merge-\<^verbatim>\<open>UPDATE\<close>
  and at most one \<^verbatim>\<open>INSERT\<close> is emitted.
\<close>

theorem insert_only_on_key_change:
  "insert_iff_new_key (key s) (snd (flushes s rounds))
   \<and> subseq (map stmt_key (snd (flushes s rounds))) (map snd rounds)
   \<and> (list_all (\<lambda>r. snd r = d) rounds \<longrightarrow>
        list_all (\<lambda>q. stmt_key q = d) (snd (flushes s rounds))
        \<and> list_all is_update (tl (snd (flushes s rounds)))
        \<and> length (filter is_insert (snd (flushes s rounds))) \<le> 1)"
proof (intro conjI impI)
  show alt: "insert_iff_new_key (key s) (snd (flushes s rounds))" by (rule flushes_alternate)
  show "subseq (map stmt_key (snd (flushes s rounds))) (map snd rounds)" by (rule flushes_subseq)
  assume same: "list_all (\<lambda>r. snd r = d) rounds"
  show keys: "list_all (\<lambda>q. stmt_key q = d) (snd (flushes s rounds))"
    using same by (rule flushes_keys)
  show upd: "list_all is_update (tl (snd (flushes s rounds)))"
  proof (cases "snd (flushes s rounds)")
    case Nil
    then show ?thesis by simp
  next
    case (Cons q qs)
    with alt keys have "insert_iff_new_key (Some d) qs" "list_all (\<lambda>q. stmt_key q = d) qs" by auto
    then have "list_all is_update qs" by (rule same_key_updates) simp
    with Cons show ?thesis by simp
  qed
  have no_both: "\<And>q. is_update q \<Longrightarrow> \<not> is_insert q"
    by (case_tac q) auto
  show "length (filter is_insert (snd (flushes s rounds))) \<le> 1"
  proof (cases "snd (flushes s rounds)")
    case Nil
    then show ?thesis by simp
  next
    case (Cons q qs)
    with upd have "list_all is_update qs" by simp
    then have "filter is_insert qs = []" using no_both by (induction qs) auto
    with Cons show ?thesis by simp
  qed
qed

theorem insert_only_on_key_change_witness:
  "list_all is_update (tl (snd (flushes (Numerical ''stats_hourly'' hourlyFields)
       [(bump ''total'', ''A''), (bump ''total'', ''A''), (bump ''group'', ''A'')])))
   \<and> map kind_and_key (snd (flushes (Numerical ''stats_hourly'' hourlyFields)
       [(bump ''total'', ''A''), (bump ''total'', ''A''), (bump ''group'', ''A'')]))
     = [(''INSERT'', ''A''), (''UPDATE'', ''A''), (''UPDATE'', ''A'')]"
proof -
  have same: "list_all (\<lambda>r. snd r = ''A'')
      [(bump ''total'', ''A''), (bump ''total'', ''A''), (bump ''group'', ''A'')]"
    by simp
  have run: "map kind_and_key (snd (flushes (Numerical ''stats_hourly'' hourlyFields)
       [(bump ''total'', ''A''), (bump ''total'', ''A''), (bump ''group'', ''A'')]))
     = [(''INSERT'', ''A''), (''UPDATE'', ''A''), (''UPDATE'', ''A'')]"
    by code_simp
  from insert_only_on_key_change [of "Numerical ''stats_hourly'' hourlyFields"
      "[(bump ''total'', ''A''), (bump ''total'', ''A''), (bump ''group'', ''A'')]" "''A''"] same run
  show ?thesis by blast
qed

section \<open>Every increment is flushed once\<close>




section \<open>The bucket keys of a flush\<close>

text \<open>
  Claim C7, as the spec states it: the bucket keys describe the data being flushed rather
  than the moment of flushing. The module does not record when a count was made; the
  keys are formatted from the date that \<^verbatim>\<open>updateStats\<close> reads when it runs. With the last
  flush at 10:59:30, a private message sent at 10:59:40 is counted and not flushed (ten
  seconds have passed, the hour is the same); the next one, at 11:00:05, triggers the flush
  by the change of hour, and both messages are written under the hour key of 11:00.
\<close>

theorem counts_of_10_59_filed_under_11_00:
  "map_option snd (sends [(private_msg, at_10_59_40, 19723), (private_msg, at_11_00_05, 19723)]
      (init_Stats at_10_59_30 19723))
   = Some [NotDue,
       Query
        [Insert ''stats_hourly'' [''total'', ''group'', ''private'', ''command'', ''dialogue'']
           ''2024/1/1-11:00'' [Num 2, Num 0, Num 2, Num 0, Num 0]
           [Assign ''total'' (Plus (Col ''total'') (Num 2)),
            Assign ''private'' (Plus (Col ''private'') (Num 2))],
         Insert ''stats_daily'' [''command'', ''dialogue'', ''botSend'', ''botReceive'', ''group'']
           ''2024/1/1''
           [JsonObject [], JsonObject [], JsonObject [(''77'', Num 2)], JsonObject [], JsonObject []]
           [Assign ''botSend'' (JsonSet (Col ''botSend'')
              [(''77'', Plus (IfNull (JsonGet (Col ''botSend'') ''77'') (Num 0)) (Num 2))])],
         Insert ''stats_longterm'' [''message''] ''2024/1/1'' [Num 2]
           [Assign ''message'' (Plus (Col ''message'') (Num 2))]]]"
  by code_simp

text \<open>
  Claim C7, amended. For every flush, the hour string and the date string passed to the
  three accumulators are those of the date read at the flush check (the date string, and
  the date string followed by the hour and \<^verbatim>\<open>:00\<close>); every statement of the hourly
  accumulator carries the first and every statement of the daily and long-term accumulators
  the second, whatever the accumulators hold. The keys are formed before any accumulator is
  cleared, and they name the window in which the flush runs.
\<close>

theorem flush_keys_from_clock:
  "flush_due date forced st \<Longrightarrow>
   snd (updateStats date n forced st) =
      (if snd (Stat_update (hourString date) [] (hourly st))
          @ snd (Stat_update (toLocaleDateString date) [] (daily st))
          @ snd (Stat_update (toLocaleDateString date) [] (longterm st))
          @ map (\<lambda>(i, c). activity_update n i c) (groups st) = [] then NothingToWrite
       else Query (snd (Stat_update (hourString date) [] (hourly st))
          @ snd (Stat_update (toLocaleDateString date) [] (daily st))
          @ snd (Stat_update (toLocaleDateString date) [] (longterm st))
          @ map (\<lambda>(i, c). activity_update n i c) (groups st)))
   \<and> list_all (\<lambda>q. stmt_key q = toLocaleDateString date @ ''-'' @ show_int (getHours date) @ '':00'')
        (snd (Stat_update (hourString date) [] (hourly st)))
   \<and> list_all (\<lambda>q. stmt_key q = toLocaleDateString date)
        (snd (Stat_update (toLocaleDateString date) [] (daily st))
          @ snd (Stat_update (toLocaleDateString date) [] (longterm st)))"
  using updateStats_due(1) [of date forced st n]
    flushed_keys [of "hourString date" "hourly st"]
    flushed_keys [of "toLocaleDateString date" "daily st"]
    flushed_keys [of "toLocaleDateString date" "longterm st"]
  by (simp add: hourString_def)

theorem flush_keys_from_clock_witness:
  "flush_due at_11_00_05 False pending_example
   \<and> list_all (\<lambda>q. stmt_key q = toLocaleDateString at_11_00_05 @ ''-'' @ show_int (getHours at_11_00_05) @ '':00'')
        (snd (Stat_update (hourString at_11_00_05) [] (hourly pending_example)))
   \<and> map kind_and_key (snd (Stat_update (hourString at_11_00_05) [] (hourly pending_example)))
       = [(''INSERT'', ''2024/1/1-11:00'')]"
proof -
  have due: "flush_due at_11_00_05 False pending_example"
    by (simp add: flush_due_def pending_example_def init_Stats_def at_11_00_05_def at_10_59_30_def)
  have run: "map kind_and_key (snd (Stat_update (hourString at_11_00_05) [] (hourly pending_example)))
       = [(''INSERT'', ''2024/1/1-11:00'')]"
    by code_simp
  from flush_keys_from_clock [OF due, of 19723] due run show ?thesis by simp
qed

section \<open>The activity ledger\<close>

lemma exec_activity_update:
  assumes "map_of rows i = Some r" and "map_of r ''activity'' = Some (Json act)"
  shows "exec (activity_update n i c) rows =
     Some (AList.update i
            (AList.update ''activity''
               (Json (AList.update (show_int n) (or0 (map_of act (show_int n)) + c) act)) r) rows)"
  using assms by (simp add: activity_update_def or0_def split: option.splits)

text \<open>
  Claim C8. A flush empties the ledger and records the day number it was given; the query
  it issues ends with one \<^verbatim>\<open>UPDATE\<close> of \<^verbatim>\<open>channel\<close> per ledger entry, in the order of the
  ledger. Executed on a table that has the channel's row with an activity object, the
  statement of an entry with count \<open>c\<close> sets the member of the day number to its old
  value plus \<open>c\<close>, counting a missing member as \<open>0\<close>, and leaves every other member, column
  and row as it was. The ledger is empty in the state that \<^verbatim>\<open>updateStats\<close> leaves before
  the query is awaited, whatever becomes of the query.
\<close>

theorem ledger_merged_and_cleared:
  "flush_due date forced st \<Longrightarrow>
   groups (fst (updateStats date n forced st)) = []
   \<and> updateNumber (fst (updateStats date n forced st)) = n
   \<and> (\<exists>sqls. snd (updateStats date n forced st) =
         (if sqls @ map (\<lambda>(i, c). activity_update n i c) (groups st) = [] then NothingToWrite
          else Query (sqls @ map (\<lambda>(i, c). activity_update n i c) (groups st))))
   \<and> (\<forall>(i, c) \<in> set (groups st). \<forall>rows r act.
         map_of rows i = Some r \<longrightarrow> map_of r ''activity'' = Some (Json act) \<longrightarrow>
         (\<exists>act'. exec (activity_update n i c) rows
                   = Some (AList.update i (AList.update ''activity'' (Json act') r) rows)
            \<and> (\<forall>k. map_of act' k =
                  (if k = show_int n then Some (or0 (map_of act k) + c) else map_of act k))))"
proof (intro conjI)
  assume due: "flush_due date forced st"
  show "groups (fst (updateStats date n forced st)) = []"
    and "updateNumber (fst (updateStats date n forced st)) = n"
    using updateStats_due(2) [OF due, of n] by simp_all
  show "\<exists>sqls. snd (updateStats date n forced st) =
         (if sqls @ map (\<lambda>(i, c). activity_update n i c) (groups st) = [] then NothingToWrite
          else Query (sqls @ map (\<lambda>(i, c). activity_update n i c) (groups st)))"
    using updateStats_due(1) [OF due, of n]
    by (intro exI [of _ "snd (Stat_update (hourString date) [] (hourly st))
          @ snd (Stat_update (toLocaleDateString date) [] (daily st))
          @ snd (Stat_update (toLocaleDateString date) [] (longterm st))"]) simp
  show "\<forall>(i, c) \<in> set (groups st). \<forall>rows r act.
         map_of rows i = Some r \<longrightarrow> map_of r ''activity'' = Some (Json act) \<longrightarrow>
         (\<exists>act'. exec (activity_update n i c) rows
                   = Some (AList.update i (AList.update ''activity'' (Json act') r) rows)
            \<and> (\<forall>k. map_of act' k =
                  (if k = show_int n then Some (or0 (map_of act k) + c) else map_of act k)))"
  proof (intro ballI, clarify)
    fix i :: string and c :: int and rows :: tbl and r :: row and act :: "(string \<times> int) list"
    assume "map_of rows i = Some r" and "map_of r ''activity'' = Some (Json act)"
    then have "exec (activity_update n i c) rows =
       Some (AList.update i
            (AList.update ''activity''
               (Json (AList.update (show_int n) (or0 (map_of act (show_int n)) + c) act)) r) rows)"
      by (rule exec_activity_update)
    then show "\<exists>act'. exec (activity_update n i c) rows
                   = Some (AList.update i (AList.update ''activity'' (Json act') r) rows)
            \<and> (\<forall>k. map_of act' k =
                  (if k = show_int n then Some (or0 (map_of act k) + c) else map_of act k))"
      by (intro exI [of _ "AList.update (show_int n) (or0 (map_of act (show_int n)) + c) act"])
         (simp add: update_conv')
  qed
qed

theorem ledger_merged_and_cleared_witness:
  "flush_due at_11_00_05 False pending_example
   \<and> groups (fst (updateStats at_11_00_05 19723 False pending_example)) = []
   \<and> exec (activity_update 19723 ''123'' 2) channel_example
       = Some [(''123'', [(''name'', Null), (''activity'', Json [(''19722'', 7), (''19723'', 2)])])]
   \<and> (\<exists>q. snd (updateStats at_11_00_05 19723 False pending_example) = Query [q, activity_update 19723 ''123'' 2])"
proof -
  have due: "flush_due at_11_00_05 False pending_example"
    by (simp add: flush_due_def pending_example_def init_Stats_def at_11_00_05_def at_10_59_30_def)
  have ex: "exec (activity_update 19723 ''123'' 2) channel_example
       = Some [(''123'', [(''name'', Null), (''activity'', Json [(''19722'', 7), (''19723'', 2)])])]"
    by code_simp
  have q: "snd (updateStats at_11_00_05 19723 False pending_example)
      = Query [Insert ''stats_hourly'' [''total'', ''group'', ''private'', ''command'', ''dialogue'']
           ''2024/1/1-11:00'' [Num 1, Num 0, Num 0, Num 0, Num 0]
           [Assign ''total'' (Plus (Col ''total'') (Num 1))], activity_update 19723 ''123'' 2]"
    by code_simp
  from ledger_merged_and_cleared [OF due, of 19723] due ex q show ?thesis by simp
qed

section \<open>Insert and merge of a recorded accumulator\<close>

lemma update_fresh: "k \<notin> fst ` set al \<Longrightarrow> AList.update k v al = al @ [(k, v)]"
  by (induction al) auto

lemma fold_update_fresh:
  "distinct (map fst kvs) \<Longrightarrow> fst ` set kvs \<inter> fst ` set acc = {} \<Longrightarrow>
   fold (\<lambda>(k, n). AList.update k n) kvs acc = acc @ kvs"
proof (induction kvs arbitrary: acc)
  case Nil
  show ?case by simp
next
  case (Cons x kvs)
  obtain k n where x: "x = (k, n)" by (cases x)
  from Cons.prems x have fresh: "k \<notin> fst ` set acc" by auto
  from Cons.prems x have "distinct (map fst kvs)" and "fst ` set kvs \<inter> fst ` set (acc @ [(k, n)]) = {}"
    by auto
  from Cons.IH [OF this] show ?case
    by (simp add: x update_fresh [OF fresh])
qed

lemma map_of_fold_update:
  "distinct (map fst kvs) \<Longrightarrow>
   map_of (fold (\<lambda>(k, n). AList.update k n) kvs m) k =
     (case map_of kvs k of None \<Rightarrow> map_of m k | Some n \<Rightarrow> Some n)"
proof (induction kvs arbitrary: m)
  case Nil
  show ?case by simp
next
  case (Cons x kvs)
  obtain k' n where x: "x = (k', n)" by (cases x)
  from Cons.prems x have d: "distinct (map fst kvs)" and nk: "k' \<notin> fst ` set kvs" by auto
  from nk have none: "map_of kvs k' = None" by (simp add: map_of_eq_None_iff)
  show ?case
    using Cons.IH [OF d, of "AList.update k' n m"] none
    by (auto simp: x update_conv' split: option.splits)
qed

lemma eval_pairs_create: "eval_pairs r (map (\<lambda>(k, n). (k, Num n)) v) = Some v"
  by (induction v) auto

lemma eval_pairs_merge:
  "map_of r name = Some (Json stored) \<Longrightarrow>
   eval_pairs r (merge_pairs name pending) = Some (map (\<lambda>(k, n). (k, or0 (map_of stored k) + n)) pending)"
  by (induction pending) (auto simp: merge_pairs_def or0_def split: option.splits)

lemma eval_create_Recorded:
  "distinct (map fst v) \<Longrightarrow> eval r (create Recorded_config v) = Some (Json v)"
  using fold_update_fresh [of v "[]"] by (simp add: Recorded_config_def eval_pairs_create)

lemma map_of_map_merge:
  "map_of (map (\<lambda>(k, n). (k, or0 (map_of stored k) + n)) pending) k
     = map_option (\<lambda>n. or0 (map_of stored k) + n) (map_of pending k)"
  by (induction pending) auto

lemma eval_merge_Recorded:
  assumes "distinct (map fst pending)" and "map_of r name = Some (Json stored)"
  shows "\<exists>stored'. eval r (JsonSet (Col name) (merge_pairs name pending)) = Some (Json stored')
           \<and> (\<forall>k. map_of stored' k = merge_into stored pending k)"
proof -
  let ?kvs = "map (\<lambda>(k, n). (k, or0 (map_of stored k) + n)) pending"
  have d: "distinct (map fst ?kvs)"
    using assms(1) by (simp add: case_prod_unfold comp_def)
  have e: "eval r (JsonSet (Col name) (merge_pairs name pending))
        = Some (Json (fold (\<lambda>(k, n). AList.update k n) ?kvs stored))"
    using assms(2) by (simp add: eval_pairs_merge)
  have "map_of (fold (\<lambda>(k, n). AList.update k n) ?kvs stored) k = merge_into stored pending k" for k
    using map_of_fold_update [OF d, of stored k]
    by (simp add: map_of_map_merge merge_into_def split: option.splits)
  with e show ?thesis by blast
qed

lemma three_helps:
  "add_and_flush
     [([(''command'', ''help''), (''command'', ''help''), (''command'', ''help'')], ''2024-01-01'')]
     (Recorded ''stats_daily'' dailyFields) []
   = Some ([Insert ''stats_daily'' [''command'', ''dialogue'', ''botSend'', ''botReceive'', ''group'']
              ''2024-01-01''
              [JsonObject [(''help'', Num 3)], JsonObject [], JsonObject [], JsonObject [], JsonObject []]
              [Assign ''command'' (JsonSet (Col ''command'')
                 [(''help'', Plus (IfNull (JsonGet (Col ''command'') ''help'') (Num 0)) (Num 3))])]],
            [(''2024-01-01'',
              [(''command'', Json [(''help'', 3)]), (''dialogue'', Json []), (''botSend'', Json []),
               (''botReceive'', Json []), (''group'', Json [])])])"
  by code_simp

lemma one_more_help:
  "add_and_flush
     [([(''command'', ''help''), (''command'', ''help''), (''command'', ''help'')], ''2024-01-01''),
      ([(''command'', ''help'')], ''2024-01-01'')]
     (Recorded ''stats_daily'' dailyFields) []
   = Some ([Insert ''stats_daily'' [''command'', ''dialogue'', ''botSend'', ''botReceive'', ''group'']
              ''2024-01-01''
              [JsonObject [(''help'', Num 3)], JsonObject [], JsonObject [], JsonObject [], JsonObject []]
              [Assign ''command'' (JsonSet (Col ''command'')
                 [(''help'', Plus (IfNull (JsonGet (Col ''command'') ''help'') (Num 0)) (Num 3))])],
            Update ''stats_daily''
              [Assign ''command'' (JsonSet (Col ''command'')
                 [(''help'', Plus (IfNull (JsonGet (Col ''command'') ''help'') (Num 0)) (Num 1))])]
              (TimeEq ''2024-01-01'')],
            [(''2024-01-01'',
              [(''command'', Json [(''help'', 4)]), (''dialogue'', Json []), (''botSend'', Json []),
               (''botReceive'', Json []), (''group'', Json [])])])"
  by code_simp

lemma merge_a_into_a_b:
  "eval [(''c'', Json [(''a'', 3), (''b'', 1)])] (JsonSet (Col ''c'') (merge_pairs ''c'' [(''a'', 2)]))
     = Some (Json [(''a'', 5), (''b'', 1)])"
  by code_simp

text \<open>
  Claim C2. For a recorded accumulator the value that \<^verbatim>\<open>create\<close> gives an \<^verbatim>\<open>INSERT\<close> is
  the whole nested record (it evaluates to the object with exactly the pending entries),
  and an \<^verbatim>\<open>INSERT\<close> of the accumulator carries this value for every field. The
  \<^verbatim>\<open>update\<close> of a field is empty when nothing is pending; otherwise, executed on a row
  that stores an object in the field's column, it replaces the stored object by the merge:
  a key with a pending count gets the stored value plus the count, or the count alone when
  the key is not stored, and every other stored key keeps its value. Merging \<open>{a:2}\<close> into
  \<open>{a:3, b:1}\<close> gives \<open>{a:5, b:1}\<close>. Three increments of \<^verbatim>\<open>help\<close> in the field
  \<^verbatim>\<open>command\<close> flushed under the bucket \<^verbatim>\<open>2024-01-01\<close> store \<open>{help: 3}\<close>; one more
  increment flushed under the same bucket is an \<^verbatim>\<open>UPDATE\<close> that leaves \<open>{help: 4}\<close>.
\<close>

theorem recorded_insert_and_merge:
  assumes "distinct (map fst pending)" and "map_of r name = Some (Json stored)"
    and "config s = Recorded_config"
  shows
   "eval [] (create Recorded_config pending) = Some (Json pending)
    \<and> list_all (\<lambda>q. is_update q
           \<or> stmt_values q = map (\<lambda>(f, v). (f, create Recorded_config v)) (data s))
         (snd (Stat_update d [] s))
    \<and> (pending = [] \<longrightarrow> update Recorded_config name pending = None)
    \<and> (pending \<noteq> [] \<longrightarrow>
         (\<exists>stored'. Option.bind (update Recorded_config name pending) (\<lambda>u. apply_assigns [u] r)
                       = Some (AList.update name (Json stored') r)
            \<and> (\<forall>k. map_of stored' k = merge_into stored pending k)))
    \<and> eval [(''c'', Json [(''a'', 3), (''b'', 1)])] (JsonSet (Col ''c'') (merge_pairs ''c'' [(''a'', 2)]))
         = Some (Json [(''a'', 5), (''b'', 1)])
    \<and> map_option snd (add_and_flush
         [([(''command'', ''help''), (''command'', ''help''), (''command'', ''help'')], ''2024-01-01'')]
         (Recorded ''stats_daily'' dailyFields) [])
       = Some [(''2024-01-01'',
              [(''command'', Json [(''help'', 3)]), (''dialogue'', Json []), (''botSend'', Json []),
               (''botReceive'', Json []), (''group'', Json [])])]
    \<and> map_option (\<lambda>(out, rows). (map kind_and_key out, rows)) (add_and_flush
         [([(''command'', ''help''), (''command'', ''help''), (''command'', ''help'')], ''2024-01-01''),
          ([(''command'', ''help'')], ''2024-01-01'')]
         (Recorded ''stats_daily'' dailyFields) [])
       = Some ([(''INSERT'', ''2024-01-01''), (''UPDATE'', ''2024-01-01'')],
            [(''2024-01-01'',
              [(''command'', Json [(''help'', 4)]), (''dialogue'', Json []), (''botSend'', Json []),
               (''botReceive'', Json []), (''group'', Json [])])])"
proof (intro conjI impI)
  show "eval [] (create Recorded_config pending) = Some (Json pending)"
    using assms(1) by (rule eval_create_Recorded)
  show "list_all (\<lambda>q. is_update q
           \<or> stmt_values q = map (\<lambda>(f, v). (f, create Recorded_config v)) (data s))
         (snd (Stat_update d [] s))"
    by (simp add: Stat_update_def Let_def zip_fst_map assms(3))
  show "update Recorded_config name pending = None" if "pending = []"
    using that by (simp add: Recorded_config_def)
  show "\<exists>stored'. Option.bind (update Recorded_config name pending) (\<lambda>u. apply_assigns [u] r)
                       = Some (AList.update name (Json stored') r)
            \<and> (\<forall>k. map_of stored' k = merge_into stored pending k)" if "pending \<noteq> []"
  proof -
    from eval_merge_Recorded [OF assms(1,2)] obtain stored' where
      e: "eval r (JsonSet (Col name) (merge_pairs name pending)) = Some (Json stored')"
      and m: "\<forall>k. map_of stored' k = merge_into stored pending k"
      by blast
    have "Option.bind (update Recorded_config name pending) (\<lambda>u. apply_assigns [u] r)
        = Some (AList.update name (Json stored') r)"
      using that e assms(2) by (simp add: Recorded_config_def)
    with m show ?thesis by blast
  qed
  show "eval [(''c'', Json [(''a'', 3), (''b'', 1)])] (JsonSet (Col ''c'') (merge_pairs ''c'' [(''a'', 2)]))
         = Some (Json [(''a'', 5), (''b'', 1)])"
    by (rule merge_a_into_a_b)
  show "map_option snd (add_and_flush
         [([(''command'', ''help''), (''command'', ''help''), (''command'', ''help'')], ''2024-01-01'')]
         (Recorded ''stats_daily'' dailyFields) [])
       = Some [(''2024-01-01'',
              [(''command'', Json [(''help'', 3)]), (''dialogue'', Json []), (''botSend'', Json []),
               (''botReceive'', Json []), (''group'', Json [])])]"
    unfolding three_helps by simp
  show "map_option (\<lambda>(out, rows). (map kind_and_key out, rows)) (add_and_flush
         [([(''command'', ''help''), (''command'', ''help''), (''command'', ''help'')], ''2024-01-01''),
          ([(''command'', ''help'')], ''2024-01-01'')]
         (Recorded ''stats_daily'' dailyFields) [])
       = Some ([(''INSERT'', ''2024-01-01''), (''UPDATE'', ''2024-01-01'')],
            [(''2024-01-01'',
              [(''command'', Json [(''help'', 4)]), (''dialogue'', Json []), (''botSend'', Json []),
               (''botReceive'', Json []), (''group'', Json [])])])"
    unfolding one_more_help by simp
qed

theorem recorded_insert_and_merge_witness:
  "eval [] (create Recorded_config [(''a'', 2)]) = Some (Json [(''a'', 2)])
   \<and> (\<exists>stored'. Option.bind (update Recorded_config ''c'' [(''a'', 2)])
                     (\<lambda>u. apply_assigns [u] [(''c'', Json [(''a'', 3), (''b'', 1)])])
                   = Some (AList.update ''c'' (Json stored') [(''c'', Json [(''a'', 3), (''b'', 1)])])
        \<and> map_of stored' ''a'' = Some 5 \<and> map_of stored' ''b'' = Some 1 \<and> map_of stored' ''z'' = None)"
proof -
  have a: "distinct (map fst [(''a'', 2::int)])" by simp
  have b: "map_of [(''c'', Json [(''a'', 3), (''b'', 1)])] ''c'' = Some (Json [(''a'', 3), (''b'', 1)])"
    by simp
  have c: "config (Recorded ''stats_daily'' dailyFields) = Recorded_config" by (rule fresh_frame)
  from recorded_insert_and_merge [OF a b c, of "''2024-01-01''"]
  obtain stored' where
    s: "Option.bind (update Recorded_config ''c'' [(''a'', 2)])
                     (\<lambda>u. apply_assigns [u] [(''c'', Json [(''a'', 3), (''b'', 1)])])
                   = Some (AList.update ''c'' (Json stored') [(''c'', Json [(''a'', 3), (''b'', 1)])])"
    and m: "\<forall>k. map_of stored' k = merge_into [(''a'', 3), (''b'', 1)] [(''a'', 2)] k"
    and e: "eval [] (create Recorded_config [(''a'', 2)]) = Some (Json [(''a'', 2)])"
    by auto
  from m have "map_of stored' ''a'' = Some 5" "map_of stored' ''b'' = Some 1" "map_of stored' ''z'' = None"
    by (simp_all add: merge_into_def or0_def)
  with s e show ?thesis by blast
qed

section \<open>The recent average\<close>
















section \<open>Failures of a live entity source\<close>

lemma failing_bot_skipped:
  "getGroupList b = Inl e \<Longrightarrow> catch_noop (getGroupInfo messageMap groupMap hist bb b st) = st"
  by (simp add: getGroupInfo_def catch_noop_def)

lemma all_group_info_append:
  "all_group_info messageMap groupMap hist bb (bs1 @ bs2) st
     = all_group_info messageMap groupMap hist bb bs2 (all_group_info messageMap groupMap hist bb bs1 st)"
  by (simp add: all_group_info_def)

lemma all_group_info_skip:
  "getGroupList b = Inl e \<Longrightarrow>
   all_group_info messageMap groupMap hist bb (bs1 @ b # bs2) st
     = all_group_info messageMap groupMap hist bb (bs1 @ bs2) st"
  by (simp add: all_group_info_def failing_bot_skipped)

lemma example_snapshot:
  "getStatusData example_world =
     Inr (\<lparr>history = [(''2023/12/31'', 10)], commands = [(''help'', Val 1)],
           hours = [[], [], [], [], [], [], [], [], [], [], [], [], [], [], [], [],
                    [], [], [], [], [], [], [], []],
           questions = [],
           group_list = [\<lparr>gd_name = ''new name'', gd_platform = ''onebot'', gd_value = Some 2,
                           gd_last = Some 10, gd_assignee = ''77''\<rparr>]\<rparr>,
          [yesterday])"
  by code_simp

text \<open>
  Claim C9. A bot whose \<^verbatim>\<open>getGroupList()\<close> fails is caught and skipped: its call of
  \<^verbatim>\<open>getGroupInfo\<close> leaves what has been gathered as it was, the bots before and after it
  are enumerated as usual, and \<^verbatim>\<open>getStatusData\<close> returns what it would return without
  that bot in the list, the assembled snapshot included.
\<close>

theorem failing_handle_is_skipped:
  "getGroupList b = Inl e \<Longrightarrow>
   getStatusData (w\<lparr>bots := bs1 @ b # bs2\<rparr>) = getStatusData (w\<lparr>bots := bs1 @ bs2\<rparr>)
   \<and> catch_noop (getGroupInfo messageMap groupMap hist bb b st) = st
   \<and> all_group_info messageMap groupMap hist bb (bs1 @ b # bs2) st
       = all_group_info messageMap groupMap hist bb bs2 (all_group_info messageMap groupMap hist bb bs1 st)"
proof (intro conjI)
  assume f: "getGroupList b = Inl e"
  have skip: "all_group_info mm gm h bb' (bs1 @ b # bs2) s = all_group_info mm gm h bb' (bs1 @ bs2) s"
    for mm gm h bb' s
    using f by (rule all_group_info_skip)
  show "getStatusData (w\<lparr>bots := bs1 @ b # bs2\<rparr>) = getStatusData (w\<lparr>bots := bs1 @ bs2\<rparr>)"
    by (simp add: getStatusData_def Let_def skip split: sum.splits)
  show "catch_noop (getGroupInfo messageMap groupMap hist bb b st) = st"
    using f by (rule failing_bot_skipped)
  show "all_group_info messageMap groupMap hist bb (bs1 @ b # bs2) st
       = all_group_info messageMap groupMap hist bb bs2 (all_group_info messageMap groupMap hist bb bs1 st)"
    unfolding skip by (rule all_group_info_append)
qed

theorem failing_handle_is_skipped_witness:
  "getGroupList unreachable_bot = Inl Rejected
   \<and> getStatusData (example_world\<lparr>bots := [] @ unreachable_bot # [onebot]\<rparr>)
       = getStatusData (example_world\<lparr>bots := [] @ [onebot]\<rparr>)
   \<and> getStatusData example_world =
     Inr (\<lparr>history = [(''2023/12/31'', 10)], commands = [(''help'', Val 1)],
           hours = [[], [], [], [], [], [], [], [], [], [], [], [], [], [], [], [],
                    [], [], [], [], [], [], [], []],
           questions = [],
           group_list = [\<lparr>gd_name = ''new name'', gd_platform = ''onebot'', gd_value = Some 2,
                           gd_last = Some 10, gd_assignee = ''77''\<rparr>]\<rparr>,
          [yesterday])"
proof -
  have f: "getGroupList unreachable_bot = Inl Rejected" by (simp add: unreachable_bot_def)
  from failing_handle_is_skipped [OF f, where w = example_world and ?bs1.0 = "[]" and ?bs2.0 = "[onebot]", THEN conjunct1] f example_snapshot
  show ?thesis by blast
qed

section \<open>The snapshot cache\<close>

lemma started_patch:
  "started (fst (patch d c)) = started c @ (if cachedDate c = Some d then [] else [d])"
  "cachedDate (fst (patch d c)) = Some d"
  by (auto simp: patch_def Let_def)

lemma started_requests:
  "started (fst (requests ds c)) = started c @ date_changes (cachedDate c) ds"
proof (induction ds arbitrary: c)
  case Nil
  show ?case by simp
next
  case (Cons d ds)
  have "fst (requests (d # ds) c) = fst (requests ds (fst (patch d c)))"
    by (simp add: split_def Let_def)
  then show ?case
    using Cons.IH [of "fst (patch d c)"] by (simp add: started_patch)
qed

lemma date_changes_remdups:
  "date_changes prev ds = (if ds \<noteq> [] \<and> prev = Some (hd ds) then tl (remdups_adj ds) else remdups_adj ds)"
proof (induction ds arbitrary: prev)
  case Nil
  show ?case by simp
next
  case (Cons d ds)
  show ?case
    using Cons.IH [of "Some d"] by (cases ds) auto
qed

lemma date_changes_distinct:
  "distinct (remdups_adj ds) \<Longrightarrow> distinct (date_changes prev ds)"
  by (simp add: date_changes_remdups distinct_tl)

lemma patch_again:
  "patch d (fst (patch d c)) = patch d c"
  by (simp add: patch_def Let_def)

lemma same_date_shares:
  "list_all (\<lambda>p. p = snd (patch d c)) (snd (requests (replicate n d) c))"
proof (induction n arbitrary: c)
  case 0
  show ?case by simp
next
  case (Suc n)
  have "snd (requests (replicate (Suc n) d) c)
      = snd (patch d c) # snd (requests (replicate n d) (fst (patch d c)))"
    by (simp add: split_def Let_def)
  moreover have "list_all (\<lambda>p. p = snd (patch d c)) (snd (requests (replicate n d) (fst (patch d c))))"
    using Suc.IH [of "fst (patch d c)"] by (simp add: patch_again)
  ultimately show ?case by simp
qed

text \<open>
  Claim C6, as the spec states it: the snapshot computation for a given calendar date runs
  at most once. \<^verbatim>\<open>patch\<close> remembers one date, the last one; requests under the dates
  2024/1/1, 2024/1/2 and again 2024/1/1 (a clock set back over midnight) start three
  computations, two of them for 2024/1/1.
\<close>

theorem date_requested_again_is_recomputed:
  "started (fst (requests [''2024/1/1'', ''2024/1/2'', ''2024/1/1''] new_Cache))
     = [''2024/1/1'', ''2024/1/2'', ''2024/1/1'']"
  by code_simp

text \<open>
  Claim C6, amended. In every sequence of requests, a request starts the snapshot
  computation, and with it the historical queries, exactly when its date differs from the
  date of the request before it (from the cached date for the first): the result is
  recomputed only when the date changes. So a date is computed at most once as long as the
  requests do not come back to a date after another one. A second request for the same date
  changes nothing and awaits the promise of the first, so two requests for one date issue
  the queries once; and all the requests of a run for one date, overlapping or not, share
  one promise, in flight or settled.
\<close>

theorem recomputed_on_date_change:
  "started (fst (requests ds c)) = started c @ date_changes (cachedDate c) ds
   \<and> (distinct (remdups_adj ds) \<longrightarrow> distinct (date_changes (cachedDate c) ds))
   \<and> patch d (fst (patch d c)) = patch d c
   \<and> started (fst (patch d (fst (patch d c)))) = started c @ (if cachedDate c = Some d then [] else [d])
   \<and> list_all (\<lambda>p. p = snd (patch d c)) (snd (requests (replicate n d) c))"
  using started_requests [of ds c] date_changes_distinct [of ds "cachedDate c"] patch_again [of d c]
    started_patch(1) [of d c] same_date_shares [of d c n]
  by simp

theorem recomputed_on_date_change_witness:
  "distinct (remdups_adj [''2024/1/1'', ''2024/1/1'', ''2024/1/2''])
   \<and> started (fst (requests [''2024/1/1'', ''2024/1/1'', ''2024/1/2''] new_Cache)) = [''2024/1/1'', ''2024/1/2'']
   \<and> distinct (date_changes (cachedDate new_Cache) [''2024/1/1'', ''2024/1/1'', ''2024/1/2''])
   \<and> snd (requests (replicate 3 ''2024/1/1'') new_Cache) = [Some 0, Some 0, Some 0]"
proof -
  have d: "distinct (remdups_adj [''2024/1/1'', ''2024/1/1'', ''2024/1/2''])" by simp
  have c: "date_changes (cachedDate new_Cache) [''2024/1/1'', ''2024/1/1'', ''2024/1/2''] = [''2024/1/1'', ''2024/1/2'']"
    by (simp add: new_Cache_def)
  have s: "snd (requests (replicate 3 ''2024/1/1'') new_Cache) = [Some 0, Some 0, Some 0]"
    by code_simp
  from recomputed_on_date_change [of "[''2024/1/1'', ''2024/1/1'', ''2024/1/2'']" new_Cache "''2024/1/1''" 3] d c s
  show ?thesis by (simp add: new_Cache_def)
qed

end
